theory Spec2Isabelle
  imports Complex_Main "HOL-Library.AList" "HOL-Library.Sublist"
begin

section \<open>Python values and exceptions\<close>

text \<open>
  A Python \<open>str\<close> is modelled as a list of code points below 256 (one \<open>char\<close> per code
  point), a \<open>bytes\<close> value as a list of bytes. Exceptions are values of \<open>error\<close>: the
  five exception classes of \<open>utils/exceptions.py\<close> that the backends raise, and the
  built-in exceptions that escape from the standard library calls the backends make.
\<close>

type_synonym pystr = string
type_synonym bytes = string

datatype error =
    SandboxCreationError
  | SandboxNotFoundError
  | CommandExecutionError
  | FileOperationError
  | InvalidBackendError
  | FileNotFoundError
  | NotADirectoryError
  | IsADirectoryError
  | FileExistsError
  | UnicodeDecodeError
  | ValueError
  | DockerNotFound
  | DockerAPIError

subsection \<open>\<open>str\<close> methods\<close>

definition startswith :: "pystr \<Rightarrow> pystr \<Rightarrow> bool" where
  \<comment> \<open>\<open>s.startswith(p)\<close>\<close>
  "startswith s p = (take (length p) s = p)"

fun contains :: "pystr \<Rightarrow> pystr \<Rightarrow> bool" where
  \<comment> \<open>\<open>sep in s\<close>\<close>
  "contains sep [] = (sep = [])"
| "contains sep (c # cs) = (startswith (c # cs) sep \<or> contains sep cs)"

definition py_isspace :: "char \<Rightarrow> bool" where
  \<comment> \<open>the code points below 256 for which \<open>str.isspace\<close> holds\<close>
  "py_isspace c = ((of_char c :: nat) \<in> {9, 10, 11, 12, 13, 28, 29, 30, 31, 32, 133, 160})"

definition py_strip :: "pystr \<Rightarrow> pystr" where
  \<comment> \<open>\<open>s.strip()\<close>\<close>
  "py_strip s = rev (dropWhile py_isspace (rev (dropWhile py_isspace s)))"

function py_split_ws :: "pystr \<Rightarrow> pystr list" where
  \<comment> \<open>\<open>s.split()\<close>: the maximal runs of characters that are not whitespace\<close>
  "py_split_ws s =
     (let t = dropWhile py_isspace s in
      if t = [] then []
      else takeWhile (\<lambda>c. \<not> py_isspace c) t # py_split_ws (dropWhile (\<lambda>c. \<not> py_isspace c) t))"
  by pat_completeness auto
termination
proof (relation "measure length")
  fix s t :: pystr
  assume t: "t = dropWhile py_isspace s" and ne: "t \<noteq> []"
  from ne obtain c cs where tc: "t = c # cs" by (cases t) auto
  with t have "\<not> py_isspace c" by (metis hd_dropWhile list.sel(1) ne)
  then have "length (dropWhile (\<lambda>c. \<not> py_isspace c) t) < length t"
    using tc by (simp add: length_dropWhile_le le_imp_less_Suc)
  also have "length t \<le> length s" using t by (simp add: length_dropWhile_le)
  finally show "(dropWhile (\<lambda>c. \<not> py_isspace c) t, s) \<in> measure length" by simp
qed simp

declare py_split_ws.simps [simp del]

function split_from :: "pystr \<Rightarrow> pystr \<Rightarrow> pystr \<Rightarrow> pystr list" where
  \<comment> \<open>the scan of \<open>s.split(sep)\<close> for a non-empty \<open>sep\<close>: \<open>cur\<close> holds, reversed, the
      characters of the part being read\<close>
  "split_from sep cur [] = [rev cur]"
| "split_from sep cur (c # cs) =
     (if sep \<noteq> [] \<and> startswith (c # cs) sep
      then rev cur # split_from sep [] (drop (length sep) (c # cs))
      else split_from sep (c # cur) cs)"
  by pat_completeness auto
termination
  by (relation "measure (\<lambda>(sep, cur, s). length s)") auto

definition py_split :: "pystr \<Rightarrow> pystr \<Rightarrow> error + pystr list" where
  \<comment> \<open>\<open>s.split(sep)\<close>; an empty separator raises \<open>ValueError\<close>\<close>
  "py_split s sep = (if sep = [] then Inl ValueError else Inr (split_from sep [] s))"

definition is_digit :: "char \<Rightarrow> bool" where
  "is_digit c = (48 \<le> (of_char c :: nat) \<and> (of_char c :: nat) \<le> 57)"

definition digit_val :: "char \<Rightarrow> nat" where
  "digit_val c = of_char c - 48"

fun py_digits :: "bool \<Rightarrow> nat \<Rightarrow> pystr \<Rightarrow> nat option" where
  \<comment> \<open>decimal digits, with single underscores allowed between two digits; the flag
      says that the previous character was a digit\<close>
  "py_digits pd acc [] = (if pd then Some acc else None)"
| "py_digits pd acc (c # cs) =
     (if is_digit c then py_digits True (acc * 10 + digit_val c) cs
      else if c = CHR ''_'' \<and> pd then
        (case cs of [] \<Rightarrow> None
         | d # _ \<Rightarrow> if is_digit d then py_digits False acc cs else None)
      else None)"

definition py_int :: "pystr \<Rightarrow> int option" where
  \<comment> \<open>\<open>int(s)\<close> in base 10; \<open>None\<close> stands for \<open>ValueError\<close>\<close>
  "py_int s =
     (case py_strip s of
        [] \<Rightarrow> None
      | c # r \<Rightarrow>
          if c = CHR ''-'' then map_option (\<lambda>n. - int n) (py_digits False 0 r)
          else if c = CHR ''+'' then map_option int (py_digits False 0 r)
          else map_option int (py_digits False 0 (c # r)))"

definition py_lower_char :: "char \<Rightarrow> char" where
  "py_lower_char c =
     (let n = (of_char c :: nat) in
      if (65 \<le> n \<and> n \<le> 90) \<or> (192 \<le> n \<and> n \<le> 222 \<and> n \<noteq> 215) then char_of (n + 32) else c)"

definition py_lower :: "pystr \<Rightarrow> pystr" where
  \<comment> \<open>\<open>s.lower()\<close> on code points below 256\<close>
  "py_lower s = map py_lower_char s"




section \<open>The backend factory (\<open>backends/factory.py\<close>)\<close>

text \<open>
  The two class attributes \<open>_backends\<close> and \<open>_instances\<close> are dictionaries; they are
  association lists here, read with \<open>map_of\<close> and written with \<open>AList.update\<close>. A backend
  object is its identity (the number of the allocation that made it), its class and the
  configuration its constructor was given. Whether a constructor's \<open>_validate_config\<close>
  passes depends on the machine (tmux installed, Docker reachable): it is the parameter
  \<open>ok\<close>.
\<close>

type_synonym config = "(string \<times> string) list"

datatype backend_class = OrbStackBackend | TmuxBackend | OtherBackend string

record backend_instance =
  inst_id :: nat
  inst_class :: backend_class
  inst_config :: config

record factory =
  backends :: "(string \<times> backend_class) list"
  instances :: "(string \<times> backend_instance) list"
  allocated :: nat

definition register_backend :: "factory \<Rightarrow> string \<Rightarrow> backend_class \<Rightarrow> factory" where
  "register_backend f name backend_class =
     f\<lparr>backends := AList.update (py_lower name) backend_class (backends f)\<rparr>"

definition register_default_backends :: "factory \<Rightarrow> factory" where
  "register_default_backends f =
     register_backend (register_backend f ''orbstack'' OrbStackBackend) ''tmux'' TmuxBackend"

definition construct ::
  "(backend_class \<Rightarrow> config \<Rightarrow> bool) \<Rightarrow> backend_class \<Rightarrow> config \<Rightarrow> nat \<Rightarrow> error + backend_instance" where
  \<comment> \<open>\<open>backend_class(config)\<close>: \<open>__init__\<close> stores the configuration and validates it\<close>
  "construct ok backend_class cfg n =
     (if ok backend_class cfg
      then Inr \<lparr>inst_id = n, inst_class = backend_class, inst_config = cfg\<rparr>
      else Inl SandboxCreationError)"

definition create_backend ::
  "(backend_class \<Rightarrow> config \<Rightarrow> bool) \<Rightarrow> factory \<Rightarrow> string \<Rightarrow> config \<Rightarrow> bool
     \<Rightarrow> (error + backend_instance) \<times> factory" where
  "create_backend ok f backend_type cfg cache =
     (let bt = py_lower backend_type in
      case (if cache then map_of (instances f) bt else None) of
        Some inst \<Rightarrow> (Inr inst, f)
      | None \<Rightarrow>
          (let f1 = (if backends f = [] then register_default_backends f else f) in
           case map_of (backends f1) bt of
             None \<Rightarrow> (Inl InvalidBackendError, f1)
           | Some backend_class \<Rightarrow>
               (case construct ok backend_class cfg (allocated f1) of
                  Inl e \<Rightarrow> (Inl e, f1)
                | Inr inst \<Rightarrow>
                    (Inr inst,
                     f1\<lparr>allocated := Suc (allocated f1),
                        instances := (if cache then AList.update bt inst (instances f1)
                                      else instances f1)\<rparr>))))"

definition list_backends :: "factory \<Rightarrow> string list \<times> factory" where
  "list_backends f =
     (let f1 = (if backends f = [] then register_default_backends f else f)
      in (map fst (backends f1), f1))"

definition clear_cache :: "factory \<Rightarrow> factory" where
  "clear_cache f = f\<lparr>instances := []\<rparr>"

text \<open>Any call on the factory other than \<open>clear_cache\<close>, and a run of such calls.\<close>

datatype factory_call =
    CreateBackend string config bool
  | RegisterBackend string backend_class
  | ListBackends

fun factory_step :: "(backend_class \<Rightarrow> config \<Rightarrow> bool) \<Rightarrow> factory \<Rightarrow> factory_call \<Rightarrow> factory" where
  "factory_step ok f (CreateBackend name cfg cache) = snd (create_backend ok f name cfg cache)"
| "factory_step ok f (RegisterBackend name backend_class) = register_backend f name backend_class"
| "factory_step ok f ListBackends = snd (list_backends f)"

definition factory_run ::
  "(backend_class \<Rightarrow> config \<Rightarrow> bool) \<Rightarrow> factory \<Rightarrow> factory_call list \<Rightarrow> factory" where
  "factory_run ok f calls = foldl (factory_step ok) f calls"

section \<open>Paths and files of the host (\<open>pathlib\<close>, \<open>os\<close>, \<open>shutil\<close>)\<close>

subsection \<open>\<open>pathlib.PurePosixPath\<close>\<close>

text \<open>
  A path object is its root (empty, one slash or two slashes) and its parts: the
  components between slashes, without the empty ones and without the single dot; a
  double-dot component stays. \<open>Path\<close> is the constructor on a string, \<open>path_div\<close> the
  operator \<open>/\<close> with a string on the right: it joins as \<open>posixpath.join\<close> does, so an
  operand that starts with a slash replaces everything on its left.
\<close>

datatype ppath = PPath (p_root: string) (p_parts: "string list")

fun split_slash :: "string \<Rightarrow> string list" where
  \<comment> \<open>\<open>s.split("/")\<close>\<close>
  "split_slash [] = [[]]"
| "split_slash (c # cs) =
     (if c = CHR ''/'' then [] # split_slash cs
      else (case split_slash cs of [] \<Rightarrow> [[c]] | p # ps \<Rightarrow> (c # p) # ps))"

definition path_root :: "string \<Rightarrow> string" where
  "path_root s =
     (if startswith s ''//'' \<and> \<not> startswith s ''///'' then ''//''
      else if startswith s ''/'' then ''/'' else [])"

definition part_kept :: "string \<Rightarrow> bool" where
  \<comment> \<open>the components that make a part: not the empty one, not the single dot\<close>
  "part_kept c = (c \<noteq> [] \<and> c \<noteq> ''.'')"

definition Path :: "string \<Rightarrow> ppath" where
  "Path s = PPath (path_root s) (filter part_kept (split_slash s))"

fun join_slash :: "string list \<Rightarrow> string" where
  \<comment> \<open>\<open>"/".join(parts)\<close>\<close>
  "join_slash [] = []"
| "join_slash [x] = x"
| "join_slash (x # y # ys) = x @ ''/'' @ join_slash (y # ys)"

definition path_str :: "ppath \<Rightarrow> string" where
  \<comment> \<open>\<open>str(p)\<close>\<close>
  "path_str p = (if p_root p = [] \<and> p_parts p = [] then ''.'' else p_root p @ join_slash (p_parts p))"

definition posixpath_join :: "string \<Rightarrow> string \<Rightarrow> string" where
  "posixpath_join a b =
     (if startswith b ''/'' then b
      else if a = [] \<or> last a = CHR ''/'' then a @ b
      else a @ ''/'' @ b)"

definition path_div :: "ppath \<Rightarrow> string \<Rightarrow> ppath" where
  \<comment> \<open>\<open>p / s\<close>\<close>
  "path_div p s = Path (posixpath_join (path_str p) s)"

definition path_parent :: "ppath \<Rightarrow> ppath" where
  \<comment> \<open>\<open>p.parent\<close>: lexical; a path without parts is its own parent\<close>
  "path_parent p = PPath (p_root p) (butlast (p_parts p))"

definition path_name :: "ppath \<Rightarrow> string" where
  \<comment> \<open>\<open>p.name\<close>\<close>
  "path_name p = (if p_parts p = [] then [] else last (p_parts p))"

definition is_relative_to :: "ppath \<Rightarrow> ppath \<Rightarrow> bool" where
  \<comment> \<open>\<open>p.is_relative_to(base)\<close>: \<open>p\<close> is \<open>base\<close> or lies underneath it\<close>
  "is_relative_to p base = (p_root p = p_root base \<and> prefix (p_parts base) (p_parts p))"

subsection \<open>The file system\<close>

text \<open>
  The host's file system maps the location of an entry (its components from the root
  directory) to a directory or to a regular file with its permission bits (the three
  octal digits that \<open>oct(st_mode)[-3:]\<close> yields) and its content. The root directory
  always exists. The model has no symbolic links, no permission checks and no limits on
  names or space, so the only failures are the ones of a missing entry or of an entry of
  the wrong kind. A relative path starts at the working directory of the process.
\<close>

datatype node = Dir | File string bytes

type_synonym fs = "string list \<Rightarrow> node option"

record host =
  host_cwd :: "string list"
  files :: fs
  new_file_mode :: string

definition node_at :: "fs \<Rightarrow> string list \<Rightarrow> node option" where
  "node_at f loc = (if loc = [] then Some Dir else f loc)"

fun walk :: "fs \<Rightarrow> string list \<Rightarrow> string list \<Rightarrow> error + string list" where
  \<comment> \<open>follows directory components from the directory \<open>cur\<close>\<close>
  "walk f cur [] = Inr cur"
| "walk f cur (c # cs) =
     (if c = ''..'' then walk f (butlast cur) cs
      else (case f (cur @ [c]) of
              None \<Rightarrow> Inl FileNotFoundError
            | Some (File m d) \<Rightarrow> Inl NotADirectoryError
            | Some Dir \<Rightarrow> walk f (cur @ [c]) cs))"

definition start_dir :: "host \<Rightarrow> ppath \<Rightarrow> string list" where
  \<comment> \<open>where the resolution of a path starts: the working directory or the root\<close>
  "start_dir h p = (if p_root p = [] then host_cwd h else [])"

definition locate :: "host \<Rightarrow> ppath \<Rightarrow> error + string list" where
  \<comment> \<open>the location a path names, once the directories leading to it are resolved\<close>
  "locate h p =
     (let start = start_dir h p in
      if p_parts p = [] then Inr start
      else (case walk (files h) start (butlast (p_parts p)) of
              Inl e \<Rightarrow> Inl e
            | Inr d \<Rightarrow> if last (p_parts p) = ''..'' then Inr (butlast d)
                       else Inr (d @ [last (p_parts p)])))"

definition os_stat :: "host \<Rightarrow> ppath \<Rightarrow> error + node" where
  "os_stat h p =
     (case locate h p of
        Inl e \<Rightarrow> Inl e
      | Inr loc \<Rightarrow> (case node_at (files h) loc of None \<Rightarrow> Inl FileNotFoundError | Some n \<Rightarrow> Inr n))"

definition path_exists :: "host \<Rightarrow> ppath \<Rightarrow> bool" where
  \<comment> \<open>\<open>p.exists()\<close>\<close>
  "path_exists h p = (case os_stat h p of Inl e \<Rightarrow> False | Inr n \<Rightarrow> True)"

definition path_is_dir :: "host \<Rightarrow> ppath \<Rightarrow> bool" where
  \<comment> \<open>\<open>p.is_dir()\<close>\<close>
  "path_is_dir h p = (os_stat h p = Inr Dir)"

definition os_mkdir :: "host \<Rightarrow> ppath \<Rightarrow> error + host" where
  "os_mkdir h p =
     (if p_parts p = [] then Inl FileExistsError
      else (case walk (files h) (start_dir h p) (butlast (p_parts p)) of
              Inl e \<Rightarrow> Inl e
            | Inr d \<Rightarrow>
                if last (p_parts p) = ''..'' then Inl FileExistsError
                else (case files h (d @ [last (p_parts p)]) of
                        Some n \<Rightarrow> Inl FileExistsError
                      | None \<Rightarrow> Inr (h\<lparr>files := (files h)(d @ [last (p_parts p)] \<mapsto> Dir)\<rparr>))))"

function path_mkdir :: "host \<Rightarrow> ppath \<Rightarrow> error option \<times> host" where
  \<comment> \<open>\<open>p.mkdir(parents=True, exist_ok=True)\<close>, as \<open>pathlib\<close> implements it: the result
      is the exception raised, if any, and the host as the call leaves it\<close>
  "path_mkdir h p =
     (case os_mkdir h p of
        Inr h' \<Rightarrow> (None, h')
      | Inl e \<Rightarrow>
          if e = FileNotFoundError then
            (if path_parent p = p then (Some e, h)
             else (case path_mkdir h (path_parent p) of
                     (Some e1, h1) \<Rightarrow> (Some e1, h1)
                   | (None, h1) \<Rightarrow>
                       (case os_mkdir h1 p of
                          Inr h2 \<Rightarrow> (None, h2)
                        | Inl e2 \<Rightarrow>
                            if e2 \<noteq> FileNotFoundError \<and> path_is_dir h1 p then (None, h1)
                            else (Some e2, h1))))
          else if path_is_dir h p then (None, h)
          else (Some e, h))"
  by pat_completeness auto
termination
proof (relation "measure (\<lambda>(h, p). length (p_parts p))", goal_cases)
  case 1
  show ?case by simp
next
  case (2 h p e)
  have "p_parts p \<noteq> []"
  proof
    assume "p_parts p = []"
    then have "path_parent p = p" by (cases p) (simp add: path_parent_def)
    with 2 show False by simp
  qed
  then show ?case by (simp add: path_parent_def)
qed

declare path_mkdir.simps [simp del]

definition write_bytes :: "host \<Rightarrow> ppath \<Rightarrow> bytes \<Rightarrow> error + host" where
  \<comment> \<open>\<open>p.write_bytes(data)\<close>: a new file gets the default mode, an old one keeps its own\<close>
  "write_bytes h p data =
     (case locate h p of
        Inl e \<Rightarrow> Inl e
      | Inr loc \<Rightarrow>
          (case node_at (files h) loc of
             Some Dir \<Rightarrow> Inl IsADirectoryError
           | Some (File m d) \<Rightarrow> Inr (h\<lparr>files := (files h)(loc \<mapsto> File m data)\<rparr>)
           | None \<Rightarrow> Inr (h\<lparr>files := (files h)(loc \<mapsto> File (new_file_mode h) data)\<rparr>)))"

definition read_bytes :: "host \<Rightarrow> ppath \<Rightarrow> error + bytes" where
  \<comment> \<open>\<open>p.read_bytes()\<close>\<close>
  "read_bytes h p =
     (case os_stat h p of
        Inl e \<Rightarrow> Inl e
      | Inr Dir \<Rightarrow> Inl IsADirectoryError
      | Inr (File m d) \<Rightarrow> Inr d)"

definition os_unlink :: "host \<Rightarrow> ppath \<Rightarrow> error + host" where
  \<comment> \<open>\<open>p.unlink()\<close>\<close>
  "os_unlink h p =
     (case locate h p of
        Inl e \<Rightarrow> Inl e
      | Inr loc \<Rightarrow>
          (case node_at (files h) loc of
             None \<Rightarrow> Inl FileNotFoundError
           | Some Dir \<Rightarrow> Inl IsADirectoryError
           | Some (File m d) \<Rightarrow> Inr (h\<lparr>files := (files h)(loc := None)\<rparr>)))"

definition rmtree :: "host \<Rightarrow> ppath \<Rightarrow> error + host" where
  \<comment> \<open>\<open>shutil.rmtree(p)\<close>: removes the directory and everything underneath it\<close>
  "rmtree h p =
     (case locate h p of
        Inl e \<Rightarrow> Inl e
      | Inr loc \<Rightarrow>
          (case node_at (files h) loc of
             None \<Rightarrow> Inl FileNotFoundError
           | Some (File m d) \<Rightarrow> Inl NotADirectoryError
           | Some Dir \<Rightarrow> Inr (h\<lparr>files := (\<lambda>q. if prefix loc q then None else files h q)\<rparr>)))"

text \<open>
  The notions for stating what a write needs and what it leaves. A path is followed
  part by part from where it starts, \<open>..\<close> leading to the directory above: \<open>resolve\<close>
  gives the location reached, \<open>locs\<close> the locations reached one part after the other,
  \<open>way\<close> the locations leading to a path (its start and the locations of the parts before
  the last) and \<open>target\<close> the location the path names. The start exists when it and every
  location above it is a directory; no file is on the way when none of the locations
  leading to the path is a regular file. \<open>with_locs\<close> is the file system with
  directories at the given locations.
\<close>

fun resolve :: "string list \<Rightarrow> string list \<Rightarrow> string list" where
  "resolve cur [] = cur"
| "resolve cur (c # cs) = resolve (if c = ''..'' then butlast cur else cur @ [c]) cs"

definition locs :: "string list \<Rightarrow> string list \<Rightarrow> string list list" where
  "locs s ps = map (\<lambda>k. resolve s (take k ps)) [1..<Suc (length ps)]"

definition way :: "host \<Rightarrow> ppath \<Rightarrow> string list list" where
  "way h p = start_dir h p # locs (start_dir h p) (butlast (p_parts p))"

definition target :: "host \<Rightarrow> ppath \<Rightarrow> string list" where
  "target h p = resolve (start_dir h p) (p_parts p)"

definition dirs_to :: "fs \<Rightarrow> string list \<Rightarrow> bool" where
  "dirs_to f loc = list_all (\<lambda>j. node_at f (take j loc) = Some Dir) [0..<Suc (length loc)]"

definition start_exists :: "host \<Rightarrow> ppath \<Rightarrow> bool" where
  "start_exists h p = dirs_to (files h) (start_dir h p)"

definition no_file_on_way :: "host \<Rightarrow> ppath \<Rightarrow> bool" where
  "no_file_on_way h p =
     list_all (\<lambda>q. case node_at (files h) q of Some (File m d) \<Rightarrow> False | _ \<Rightarrow> True) (way h p)"

definition with_locs :: "fs \<Rightarrow> string list list \<Rightarrow> fs" where
  "with_locs f D = (\<lambda>q. if q \<in> set D \<and> q \<noteq> [] then Some Dir else f q)"

subsection \<open>Text files\<close>

text \<open>
  \<open>write_text\<close> and \<open>read_text\<close> open the file in text mode with the default
  arguments: the text is encoded as UTF-8 (the locale's encoding is taken to be
  UTF-8), a written line feed stays as it is on a POSIX host, and on reading both a
  carriage return followed by a line feed and a lone carriage return become a line
  feed (universal newlines). The decoder knows the code points of the model only: the
  one-byte and the two-byte forms below 256.
\<close>

definition utf8_char :: "char \<Rightarrow> bytes" where
  "utf8_char c =
     (let n = (of_char c :: nat) in
      if n < 128 then [c] else [char_of (192 + n div 64), char_of (128 + n mod 64)])"

definition utf8_encode :: "pystr \<Rightarrow> bytes" where
  "utf8_encode s = concat (map utf8_char s)"

fun utf8_decode :: "bytes \<Rightarrow> pystr option" where
  "utf8_decode [] = Some []"
| "utf8_decode [b] = (if (of_char b :: nat) < 128 then Some [b] else None)"
| "utf8_decode (b # c # r) =
     (let n = (of_char b :: nat); k = (of_char c :: nat) in
      if n < 128 then map_option ((#) b) (utf8_decode (c # r))
      else if (n = 194 \<or> n = 195) \<and> 128 \<le> k \<and> k < 192
      then map_option ((#) (char_of ((n - 192) * 64 + (k - 128)))) (utf8_decode r)
      else None)"

fun universal_newlines :: "pystr \<Rightarrow> pystr" where
  "universal_newlines [] = []"
| "universal_newlines [c] = (if c = CHR 0x0D then [CHR 0x0A] else [c])"
| "universal_newlines (c # d # r) =
     (if c = CHR 0x0D then
        (if d = CHR 0x0A then CHR 0x0A # universal_newlines r
         else CHR 0x0A # universal_newlines (d # r))
      else c # universal_newlines (d # r))"

definition write_text :: "host \<Rightarrow> ppath \<Rightarrow> pystr \<Rightarrow> error + host" where
  "write_text h p content = write_bytes h p (utf8_encode content)"

definition read_text :: "host \<Rightarrow> ppath \<Rightarrow> error + pystr" where
  "read_text h p =
     (case read_bytes h p of
        Inl e \<Rightarrow> Inl e
      | Inr b \<Rightarrow> (case utf8_decode b of
                    None \<Rightarrow> Inl UnicodeDecodeError
                  | Some s \<Rightarrow> Inr (universal_newlines s)))"

definition st_size :: "node \<Rightarrow> nat" where
  \<comment> \<open>\<open>stat().st_size\<close> of a regular file; a directory's size is the file system's business\<close>
  "st_size n = (case n of Dir \<Rightarrow> 4096 | File m d \<Rightarrow> length d)"

definition st_permissions :: "node \<Rightarrow> string" where
  \<comment> \<open>\<open>oct(stat().st_mode)[-3:]\<close>\<close>
  "st_permissions n = (case n of Dir \<Rightarrow> ''755'' | File m d \<Rightarrow> m)"

section \<open>The values the backends return (\<open>backends/base.py\<close>)\<close>

datatype SandboxStatus = CREATING | RUNNING | PAUSED | STOPPED | ERROR

text \<open>
  The fields of \<open>SandboxInfo\<close> and \<open>FileInfo\<close> carry a prefix, so that the names of
  the source's parameters (\<open>sandbox_id\<close>, \<open>template\<close>) stay free and \<open>size\<close> stays
  the constant of HOL.
\<close>

record SandboxInfo =
  info_sandbox_id :: string
  info_backend_type :: string
  info_status :: SandboxStatus
  info_created_at :: string
  info_metadata :: "(string \<times> string) list"
  info_template :: "string option"
  info_ports :: "(int \<times> string) list option"

record CommandResult =
  stdout :: pystr
  stderr :: pystr
  exit_code :: int
  pid :: "string option"

record FileInfo =
  fi_name :: string
  fi_path :: string
  fi_type :: string
  fi_size :: int
  fi_permissions :: string
  fi_modified_at :: "string option"

section \<open>The terminal backend (\<open>backends/tmux/backend.py\<close>)\<close>

text \<open>
  The state a \<open>TmuxBackend\<close> object works on: its configuration (after
  \<open>_validate_config\<close>), its dictionary \<open>_sessions\<close>, the tmux server (the live
  sessions by name, each with the directory it was started in, its environment and the
  keystrokes sent to it so far), the JSON side files of the capture directory (by
  sandbox id, each as the dictionary it encodes), and the host's file system. The tmux
  server answers every request, and resolves a target to the session of exactly that
  name. Python's leading underscore of a private method is dropped.
\<close>

record session_info =
  si_sandbox_id :: string
  si_workspace :: string
  si_created_at :: string
  si_template :: "string option"
  si_timeout :: "int option"
  si_metadata :: "(string \<times> string) list"
  si_envs :: "(string \<times> string) list"

record tmux_session =
  start_directory :: string
  environment :: "(string \<times> string) list"
  keys :: "string list list"

record tmux_backend =
  workspace_dir :: string
  capture_dir :: string
  cleanup_workspace :: bool
  sessions :: "string \<rightharpoonup> session_info"
  server :: "string \<rightharpoonup> tmux_session"
  info_files :: "string \<rightharpoonup> session_info"
  hst :: host

definition session_exists :: "tmux_backend \<Rightarrow> string \<Rightarrow> bool" where
  \<comment> \<open>\<open>tmux has-session -t sandbox_id\<close> returns 0\<close>
  "session_exists b sandbox_id = (server b sandbox_id \<noteq> None)"

definition load_session_info :: "tmux_backend \<Rightarrow> string \<Rightarrow> session_info option" where
  "load_session_info b sandbox_id = info_files b sandbox_id"

definition send_keys ::
  "(string \<rightharpoonup> tmux_session) \<Rightarrow> string \<Rightarrow> string list \<Rightarrow> error + (string \<rightharpoonup> tmux_session)" where
  \<comment> \<open>\<open>_run_tmux(["send-keys", "-t", sandbox_id, ...])\<close> with \<open>check=True\<close>\<close>
  "send_keys srv sandbox_id ks =
     (case srv sandbox_id of
        None \<Rightarrow> Inl CommandExecutionError
      | Some s \<Rightarrow> Inr (srv(sandbox_id \<mapsto> s\<lparr>keys := keys s @ [ks]\<rparr>)))"

subsection \<open>Lifecycle operations\<close>

definition tmux_connect_sandbox :: "tmux_backend \<Rightarrow> string \<Rightarrow> (error + bool) \<times> tmux_backend" where
  "tmux_connect_sandbox b sandbox_id =
     (if \<not> session_exists b sandbox_id then (Inl SandboxNotFoundError, b)
      else if sessions b sandbox_id = None then
        (case load_session_info b sandbox_id of
           None \<Rightarrow> (Inr True, b)
         | Some info \<Rightarrow> (Inr True, b\<lparr>sessions := (sessions b)(sandbox_id \<mapsto> info)\<rparr>))
      else (Inr True, b))"

definition tmux_get_sandbox_info :: "tmux_backend \<Rightarrow> string \<Rightarrow> error + SandboxInfo" where
  "tmux_get_sandbox_info b sandbox_id =
     (if \<not> session_exists b sandbox_id then Inl SandboxNotFoundError
      else
        (case (case sessions b sandbox_id of
                 Some i \<Rightarrow> Some i
               | None \<Rightarrow> load_session_info b sandbox_id) of
           None \<Rightarrow>
             Inr \<lparr>info_sandbox_id = sandbox_id, info_backend_type = ''tmux'', info_status = RUNNING,
                  info_created_at = [], info_metadata = [], info_template = None, info_ports = None\<rparr>
         | Some i \<Rightarrow>
             Inr \<lparr>info_sandbox_id = sandbox_id, info_backend_type = ''tmux'', info_status = RUNNING,
                  info_created_at = si_created_at i, info_metadata = si_metadata i,
                  info_template = si_template i, info_ports = None\<rparr>))"

definition tmux_is_sandbox_running :: "tmux_backend \<Rightarrow> string \<Rightarrow> bool" where
  "tmux_is_sandbox_running b sandbox_id = session_exists b sandbox_id"

definition tmux_kill_sandbox :: "tmux_backend \<Rightarrow> string \<Rightarrow> bool \<times> tmux_backend" where
  \<comment> \<open>\<open>kill-session\<close> runs with \<open>check=False\<close> and its return code is not read; an
      exception of the clean-up that follows ends the call with \<open>False\<close>\<close>
  "tmux_kill_sandbox b sandbox_id =
     (let b1 = b\<lparr>server := (server b)(sandbox_id := None)\<rparr>;
          workspace = path_div (Path (workspace_dir b1)) sandbox_id;
          cleaned =
            (if cleanup_workspace b1 \<and> path_exists (hst b1) workspace
             then rmtree (hst b1) workspace
             else Inr (hst b1))
      in case cleaned of
           Inl e \<Rightarrow> (False, b1)
         | Inr h \<Rightarrow>
             (True, b1\<lparr>hst := h,
                       info_files := (info_files b1)(sandbox_id := None),
                       sessions := (sessions b1)(sandbox_id := None)\<rparr>))"

definition tmux_pause_sandbox :: "tmux_backend \<Rightarrow> string \<Rightarrow> bool" where
  "tmux_pause_sandbox b sandbox_id = False"

definition tmux_resume_sandbox :: "tmux_backend \<Rightarrow> string \<Rightarrow> bool" where
  "tmux_resume_sandbox b sandbox_id = False"

subsection \<open>Command execution\<close>

text \<open>
  What the shell of the session does with the keystrokes is outside the backend. The
  foreground \<open>run_command\<close> sees it through its polling loop only: every round of the
  loop reads the clock (as the time elapsed since \<open>start_time\<close>), sleeps, and looks at
  the capture file (absent, or its text). The rounds the world offers are the list
  \<open>ticks\<close>; a loop that uses them all up without leaving has not returned, which is the
  result \<open>None\<close>. The capture file is the shell's: the model's file system does not
  hold it, so removing it at the end leaves the model's state as it is.
\<close>

record tick =
  elapsed :: real
  seen :: "pystr option"

record run_env =
  end_hex :: string
  exit_hex :: string
  ticks :: "tick list"

definition parse_exit_code :: "pystr list \<Rightarrow> int" where
  \<comment> \<open>\<open>int(parts[1].strip().split()[0])\<close>, and 0 on \<open>ValueError\<close> or \<open>IndexError\<close>\<close>
  "parse_exit_code parts =
     (case parts of
        p0 # p1 # rest \<Rightarrow>
          (case py_split_ws (py_strip p1) of
             [] \<Rightarrow> 0
           | w # ws \<Rightarrow> (case py_int w of None \<Rightarrow> 0 | Some n \<Rightarrow> n))
      | _ \<Rightarrow> 0)"

fun poll_loop :: "real \<Rightarrow> pystr \<Rightarrow> tick list \<Rightarrow> (error + pystr \<times> int) option" where
  \<comment> \<open>the \<open>while\<close> loop of \<open>run_command\<close>; the result is \<open>(output, exit_code)\<close>\<close>
  "poll_loop timeout exit_marker [] = None"
| "poll_loop timeout exit_marker (t # ts) =
     (if \<not> elapsed t < timeout then Some (Inr ([], - 1))
      else (case seen t of
              None \<Rightarrow> poll_loop timeout exit_marker ts
            | Some content \<Rightarrow>
                if contains exit_marker content then
                  (case py_split content exit_marker of
                     Inl e \<Rightarrow> Some (Inl e)
                   | Inr parts \<Rightarrow> Some (Inr (py_strip (hd parts), parse_exit_code parts)))
                else poll_loop timeout exit_marker ts))"

definition session_workspace :: "tmux_backend \<Rightarrow> string \<Rightarrow> string" where
  \<comment> \<open>\<open>(self._sessions.get(sandbox_id) or {}).get("workspace", default)\<close>\<close>
  "session_workspace b sandbox_id =
     (case sessions b sandbox_id of
        None \<Rightarrow> path_str (path_div (Path (workspace_dir b)) sandbox_id)
      | Some i \<Rightarrow> si_workspace i)"

definition env_str :: "(string \<times> string) list \<Rightarrow> string" where
  \<comment> \<open>\<open>" ".join([f"{k}={v}" for k, v in envs.items()])\<close>\<close>
  "env_str envs = concat (case map (\<lambda>(k, v). k @ ''='' @ v) envs of
                            [] \<Rightarrow> [] | x # xs \<Rightarrow> x # map (\<lambda>y. '' '' @ y) xs)"

definition build_full_cmd ::
  "tmux_backend \<Rightarrow> string \<Rightarrow> string \<Rightarrow> string option \<Rightarrow> (string \<times> string) list option \<Rightarrow> string" where
  \<comment> \<open>the lines "Build full command" and "Add environment variables"\<close>
  "build_full_cmd b sandbox_id command cwd envs =
     (let workspace = session_workspace b sandbox_id;
          full_cmd =
            (if cwd \<noteq> None \<and> cwd \<noteq> Some [] then ''cd '' @ the cwd @ '' && '' @ command
             else if workspace \<noteq> [] then ''cd '' @ workspace @ '' && '' @ command
             else command)
      in if envs \<noteq> None \<and> envs \<noteq> Some [] then env_str (the envs) @ '' '' @ full_cmd
         else full_cmd)"

definition tmux_run_command ::
  "tmux_backend \<Rightarrow> run_env \<Rightarrow> string \<Rightarrow> string \<Rightarrow> string option \<Rightarrow> (string \<times> string) list option
     \<Rightarrow> real option \<Rightarrow> bool \<Rightarrow> ((error + CommandResult) \<times> tmux_backend) option" where
  "tmux_run_command b env sandbox_id command cwd envs timeout shell =
     (if \<not> session_exists b sandbox_id then Some (Inl SandboxNotFoundError, b)
      else
        (let full_cmd = build_full_cmd b sandbox_id command cwd envs;
             marker = ''__END_'' @ end_hex env @ ''__'';
             exit_marker = ''__EXIT_'' @ exit_hex env @ ''__'';
             wrapped_cmd = full_cmd @ ''; echo '' @ [CHR 0x22] @ exit_marker @ ''$?'' @ [CHR 0x22];
             output_file = path_div (Path (capture_dir b)) (sandbox_id @ ''_output.txt'')
         in case send_keys (server b) sandbox_id
                   [''exec > >(tee '' @ path_str output_file @ '') 2>&1'', ''Enter''] of
              Inl e \<Rightarrow> Some (Inl e, b)
            | Inr srv1 \<Rightarrow>
                (case send_keys srv1 sandbox_id [wrapped_cmd, ''Enter''] of
                   Inl e \<Rightarrow> Some (Inl e, b\<lparr>server := srv1\<rparr>)
                 | Inr srv2 \<Rightarrow>
                     (let timeout1 = (case timeout of None \<Rightarrow> 60
                                      | Some t \<Rightarrow> if t = 0 then 60 else t)
                      in case poll_loop timeout1 exit_marker (ticks env) of
                           None \<Rightarrow> None
                         | Some (Inl e) \<Rightarrow> Some (Inl e, b\<lparr>server := srv2\<rparr>)
                         | Some (Inr (output, code)) \<Rightarrow>
                             Some (Inr \<lparr>stdout = output, stderr = [], exit_code = code,
                                        pid = None\<rparr>,
                                   b\<lparr>server := srv2\<rparr>)))))"

definition tmux_run_command_background ::
  "tmux_backend \<Rightarrow> string \<Rightarrow> string \<Rightarrow> string option \<Rightarrow> (string \<times> string) list option
     \<Rightarrow> (error + CommandResult) \<times> tmux_backend" where
  "tmux_run_command_background b sandbox_id command cwd envs =
     (if \<not> session_exists b sandbox_id then (Inl SandboxNotFoundError, b)
      else
        (let full_cmd = build_full_cmd b sandbox_id command cwd envs;
             bg_cmd = ''nohup '' @ full_cmd @ '' > /dev/null 2>&1 & echo $!''
         in case send_keys (server b) sandbox_id [bg_cmd, ''Enter''] of
              Inl e \<Rightarrow> (Inl e, b)
            | Inr srv1 \<Rightarrow>
                (Inr \<lparr>stdout = [], stderr = [], exit_code = 0, pid = None\<rparr>,
                 b\<lparr>server := srv1\<rparr>)))"

subsection \<open>File operations\<close>

definition get_full_path :: "tmux_backend \<Rightarrow> string \<Rightarrow> string \<Rightarrow> ppath" where
  "get_full_path b sandbox_id path =
     (let workspace = Path (session_workspace b sandbox_id) in
      if startswith path ''/workspace'' then path_div workspace (drop 10 path)
      else if startswith path ''/'' then path_div workspace (drop 1 path)
      else path_div workspace path)"

definition file_info_of :: "ppath \<Rightarrow> node \<Rightarrow> FileInfo" where
  \<comment> \<open>the \<open>FileInfo\<close> that \<open>write_file\<close> and \<open>write_file_bytes\<close> build from \<open>stat()\<close>\<close>
  "file_info_of full_path n =
     \<lparr>fi_name = path_name full_path, fi_path = path_str full_path, fi_type = ''file'',
      fi_size = int (st_size n), fi_permissions = st_permissions n, fi_modified_at = None\<rparr>"

definition tmux_read_file :: "tmux_backend \<Rightarrow> string \<Rightarrow> string \<Rightarrow> error + pystr" where
  "tmux_read_file b sandbox_id path =
     (let full_path = get_full_path b sandbox_id path in
      if \<not> path_exists (hst b) full_path then Inl FileOperationError
      else read_text (hst b) full_path)"

definition tmux_read_file_bytes :: "tmux_backend \<Rightarrow> string \<Rightarrow> string \<Rightarrow> error + bytes" where
  "tmux_read_file_bytes b sandbox_id path =
     (let full_path = get_full_path b sandbox_id path in
      if \<not> path_exists (hst b) full_path then Inl FileOperationError
      else read_bytes (hst b) full_path)"

definition tmux_write_file ::
  "tmux_backend \<Rightarrow> string \<Rightarrow> string \<Rightarrow> pystr \<Rightarrow> (error + FileInfo) \<times> tmux_backend" where
  "tmux_write_file b sandbox_id path content =
     (let full_path = get_full_path b sandbox_id path in
      case path_mkdir (hst b) (path_parent full_path) of
        (Some e, h1) \<Rightarrow> (Inl e, b\<lparr>hst := h1\<rparr>)
      | (None, h1) \<Rightarrow>
          (case write_text h1 full_path content of
             Inl e \<Rightarrow> (Inl e, b\<lparr>hst := h1\<rparr>)
           | Inr h2 \<Rightarrow>
               (case os_stat h2 full_path of
                  Inl e \<Rightarrow> (Inl e, b\<lparr>hst := h2\<rparr>)
                | Inr n \<Rightarrow> (Inr (file_info_of full_path n), b\<lparr>hst := h2\<rparr>))))"

definition tmux_write_file_bytes ::
  "tmux_backend \<Rightarrow> string \<Rightarrow> string \<Rightarrow> bytes \<Rightarrow> (error + FileInfo) \<times> tmux_backend" where
  "tmux_write_file_bytes b sandbox_id path data =
     (let full_path = get_full_path b sandbox_id path in
      case path_mkdir (hst b) (path_parent full_path) of
        (Some e, h1) \<Rightarrow> (Inl e, b\<lparr>hst := h1\<rparr>)
      | (None, h1) \<Rightarrow>
          (case write_bytes h1 full_path data of
             Inl e \<Rightarrow> (Inl e, b\<lparr>hst := h1\<rparr>)
           | Inr h2 \<Rightarrow>
               (case os_stat h2 full_path of
                  Inl e \<Rightarrow> (Inl e, b\<lparr>hst := h2\<rparr>)
                | Inr n \<Rightarrow> (Inr (file_info_of full_path n), b\<lparr>hst := h2\<rparr>))))"

definition tmux_file_exists :: "tmux_backend \<Rightarrow> string \<Rightarrow> string \<Rightarrow> bool" where
  "tmux_file_exists b sandbox_id path = path_exists (hst b) (get_full_path b sandbox_id path)"

definition tmux_make_directory ::
  "tmux_backend \<Rightarrow> string \<Rightarrow> string \<Rightarrow> (error + bool) \<times> tmux_backend" where
  "tmux_make_directory b sandbox_id path =
     (case path_mkdir (hst b) (get_full_path b sandbox_id path) of
        (Some e, h1) \<Rightarrow> (Inl e, b\<lparr>hst := h1\<rparr>)
      | (None, h1) \<Rightarrow> (Inr True, b\<lparr>hst := h1\<rparr>))"

section \<open>The container backend (\<open>backends/orbstack/backend.py\<close>)\<close>

subsection \<open>The container runtime\<close>

text \<open>
  The runtime keeps the containers by name. A container has its status, its labels,
  its creation time (\<open>attrs["Created"]\<close>) and its file system, whose locations are
  read from the container's root directory. What a process started by \<open>exec_run\<close> does is
  not the backend's business: it is the function \<open>exec_oracle\<close> of the state, which
  yields the result of the call and the container as the process leaves it, or the error
  of the runtime. An \<open>exec_result\<close> carries the exit code, the raw output (what
  \<open>output\<close> is without \<open>demux\<close>), the two streams that \<open>demux=True\<close> separates (each
  already decoded as \<open>decode("utf-8", errors="replace")\<close> decodes it, \<open>None\<close> for a stream
  without bytes) and the time the call took.

  A container object in Python is a handle on the runtime's container: here it is the
  name of that container. The object cached under a sandbox id in
  \<open>_active_containers\<close> is the one that \<open>containers.run(name=sandbox_id)\<close> or
  \<open>containers.get(sandbox_id)\<close> returned, so its handle is the sandbox id; of the
  other entries of the cached dictionary, none of which is ever read, the workspace and
  the template are kept.
\<close>

record container =
  c_status :: string
  c_labels :: "(string \<times> string) list"
  c_created :: string
  c_files :: fs

record exec_result =
  er_exit_code :: int
  er_output :: bytes
  er_streams :: "pystr option \<times> pystr option"
  er_duration :: real

record active_container =
  ac_workspace :: string
  ac_template :: "string option"

record orbstack_backend =
  orb_workspace_dir :: string
  orb_cleanup_workspace :: bool
  active_containers :: "string \<rightharpoonup> active_container"
  runtime :: "string \<rightharpoonup> container"
  exec_oracle ::
    "container \<Rightarrow> string list \<Rightarrow> string option \<Rightarrow> (string \<times> string) list option
       \<Rightarrow> error + exec_result \<times> container"
  orb_host :: host

definition LABEL_PREFIX :: string where
  "LABEL_PREFIX = ''agent-sandbox''"

definition container_host :: "container \<Rightarrow> host" where
  \<comment> \<open>the container's file system, seen from its root directory; an extracted archive
      member has the mode of a fresh \<open>TarInfo\<close>\<close>
  "container_host c = \<lparr>host_cwd = [], files = c_files c, new_file_mode = ''644''\<rparr>"

definition reload :: "orbstack_backend \<Rightarrow> string \<Rightarrow> error + container" where
  \<comment> \<open>\<open>container.reload()\<close>: the state of the container the handle names\<close>
  "reload st h = (case runtime st h of None \<Rightarrow> Inl DockerNotFound | Some c \<Rightarrow> Inr c)"

definition exec_run ::
  "orbstack_backend \<Rightarrow> string \<Rightarrow> string list \<Rightarrow> string option \<Rightarrow> (string \<times> string) list option
     \<Rightarrow> (error + exec_result) \<times> orbstack_backend" where
  \<comment> \<open>\<open>container.exec_run(cmd, workdir=..., environment=...)\<close>\<close>
  "exec_run st h cmd workdir envs =
     (case runtime st h of
        None \<Rightarrow> (Inl DockerNotFound, st)
      | Some c \<Rightarrow>
          (case exec_oracle st c cmd workdir envs of
             Inl e \<Rightarrow> (Inl e, st)
           | Inr (res, c') \<Rightarrow> (Inr res, st\<lparr>runtime := (runtime st)(h \<mapsto> c')\<rparr>)))"

text \<open>
  An archive is the list of its members, each with its name and, for a regular file,
  its content. \<open>get_archive\<close> packs the entry a path names (a directory comes first in
  its own archive; the members after it are never read and are left out),
  \<open>put_archive\<close> unpacks into an existing directory. The runtime refuses a member whose
  name is empty or a dot name, and a regular file in the place of a directory.
\<close>

type_synonym archive = "(string \<times> bytes option) list"

definition get_archive :: "container \<Rightarrow> string \<Rightarrow> error + archive" where
  "get_archive c path =
     (case os_stat (container_host c) (Path path) of
        Inl e \<Rightarrow> Inl DockerNotFound
      | Inr Dir \<Rightarrow> Inr [(path_name (Path path), None)]
      | Inr (File m d) \<Rightarrow> Inr [(path_name (Path path), Some d)])"

fun put_members :: "fs \<Rightarrow> string list \<Rightarrow> archive \<Rightarrow> error + fs" where
  "put_members f d [] = Inr f"
| "put_members f d ((n, content) # ms) =
     (if n = [] \<or> n = ''.'' \<or> n = ''..'' \<or> CHR ''/'' \<in> set n then Inl DockerAPIError
      else (case content of
              None \<Rightarrow> Inl DockerAPIError
            | Some data \<Rightarrow>
                if f (d @ [n]) = Some Dir then Inl DockerAPIError
                else put_members (f(d @ [n] \<mapsto> File ''644'' data)) d ms))"

definition put_archive :: "container \<Rightarrow> string \<Rightarrow> archive \<Rightarrow> error + container" where
  "put_archive c directory members =
     (case walk (c_files c) [] (p_parts (Path directory)) of
        Inl e \<Rightarrow> Inl DockerNotFound
      | Inr d \<Rightarrow>
          (case put_members (c_files c) d members of
             Inl e \<Rightarrow> Inl e
           | Inr f \<Rightarrow> Inr (c\<lparr>c_files := f\<rparr>)))"

subsection \<open>\<open>os.path\<close> and formatting\<close>

definition posix_head :: "string \<Rightarrow> string" where
  \<comment> \<open>\<open>p[:i]\<close> for \<open>i = p.rfind('/') + 1\<close>\<close>
  "posix_head p = rev (dropWhile (\<lambda>c. c \<noteq> CHR ''/'') (rev p))"

definition basename :: "string \<Rightarrow> string" where
  \<comment> \<open>\<open>os.path.basename(p)\<close>\<close>
  "basename p = rev (takeWhile (\<lambda>c. c \<noteq> CHR ''/'') (rev p))"

definition dirname :: "string \<Rightarrow> string" where
  \<comment> \<open>\<open>os.path.dirname(p)\<close>\<close>
  "dirname p =
     (let head = posix_head p in
      if head \<noteq> [] \<and> head \<noteq> replicate (length head) (CHR ''/'')
      then rev (dropWhile (\<lambda>c. c = CHR ''/'') (rev head))
      else head)"

function nat_str :: "nat \<Rightarrow> string" where
  "nat_str n = (if n < 10 then [''0123456789'' ! n] else nat_str (n div 10) @ [''0123456789'' ! (n mod 10)])"
  by pat_completeness auto
termination
  by (relation "measure id") auto

declare nat_str.simps [simp del]

definition py_str_int :: "int \<Rightarrow> string" where
  \<comment> \<open>\<open>str(i)\<close>\<close>
  "py_str_int i = (if i < 0 then ''-'' @ nat_str (nat (- i)) else nat_str (nat i))"

fun py_split_ws_max :: "nat \<Rightarrow> pystr \<Rightarrow> pystr list" where
  \<comment> \<open>\<open>s.split(None, maxsplit)\<close>\<close>
  "py_split_ws_max 0 s = (let t = dropWhile py_isspace s in if t = [] then [] else [t])"
| "py_split_ws_max (Suc k) s =
     (let t = dropWhile py_isspace s in
      if t = [] then []
      else takeWhile (\<lambda>c. \<not> py_isspace c) t
             # py_split_ws_max k (dropWhile (\<lambda>c. \<not> py_isspace c) t))"

fun split_lines :: "pystr \<Rightarrow> pystr list" where
  \<comment> \<open>\<open>s.split("\n")\<close>\<close>
  "split_lines [] = [[]]"
| "split_lines (c # cs) =
     (if c = CHR 0x0A then [] # split_lines cs
      else (case split_lines cs of [] \<Rightarrow> [[c]] | p # ps \<Rightarrow> (c # p) # ps))"

subsection \<open>Lifecycle operations\<close>

definition get_container :: "orbstack_backend \<Rightarrow> string \<Rightarrow> error + string" where
  \<comment> \<open>the handle of the container: the cached one, or the one the runtime finds\<close>
  "get_container st sandbox_id =
     (case active_containers st sandbox_id of
        Some a \<Rightarrow> Inr sandbox_id
      | None \<Rightarrow>
          (case runtime st sandbox_id of
             None \<Rightarrow> Inl SandboxNotFoundError
           | Some c \<Rightarrow> Inr sandbox_id))"

definition map_status :: "string \<Rightarrow> SandboxStatus" where
  "map_status docker_status =
     (case map_of
        [(''running'', RUNNING), (''paused'', PAUSED), (''exited'', STOPPED),
         (''created'', CREATING), (''restarting'', CREATING), (''removing'', STOPPED),
         (''dead'', ERROR)] docker_status of
        None \<Rightarrow> ERROR
      | Some s \<Rightarrow> s)"

definition label_metadata :: "(string \<times> string) list \<Rightarrow> (string \<times> string) list" where
  \<comment> \<open>the loop that collects the labels under \<open>agent-sandbox.meta.\<close>\<close>
  "label_metadata labels =
     map (\<lambda>(k, v). (drop (length (LABEL_PREFIX @ ''.meta.'')) k, v))
       (filter (\<lambda>(k, v). startswith k (LABEL_PREFIX @ ''.meta.'')) labels)"

definition orbstack_connect_sandbox ::
  "orbstack_backend \<Rightarrow> string \<Rightarrow> (error + bool) \<times> orbstack_backend" where
  \<comment> \<open>\<open>container.start()\<close> starts a container that is not running; the runtime refuses
      to start a paused one\<close>
  "orbstack_connect_sandbox st sandbox_id =
     (case runtime st sandbox_id of
        None \<Rightarrow> (Inl SandboxNotFoundError, st)
      | Some c \<Rightarrow>
          if c_status c = ''paused'' then (Inl DockerAPIError, st)
          else
          (let c1 = (if c_status c \<noteq> ''running'' then c\<lparr>c_status := ''running''\<rparr> else c);
               tmpl = (case map_of (c_labels c1) (LABEL_PREFIX @ ''.template'') of
                         None \<Rightarrow> ''base'' | Some t \<Rightarrow> t)
           in (Inr True,
               st\<lparr>runtime := (runtime st)(sandbox_id \<mapsto> c1),
                  active_containers := (active_containers st)(sandbox_id \<mapsto>
                    \<lparr>ac_workspace = path_str (path_div (Path (orb_workspace_dir st)) sandbox_id),
                     ac_template = Some tmpl\<rparr>)\<rparr>)))"

definition orbstack_get_sandbox_info :: "orbstack_backend \<Rightarrow> string \<Rightarrow> error + SandboxInfo" where
  "orbstack_get_sandbox_info st sandbox_id =
     (case get_container st sandbox_id of
        Inl e \<Rightarrow> Inl e
      | Inr h \<Rightarrow>
          (case reload st h of
             Inl e \<Rightarrow> Inl e
           | Inr c \<Rightarrow>
               Inr \<lparr>info_sandbox_id = sandbox_id, info_backend_type = ''orbstack'',
                    info_status = map_status (c_status c),
                    info_created_at =
                      (case map_of (c_labels c) (LABEL_PREFIX @ ''.created_at'') of
                         None \<Rightarrow> c_created c | Some v \<Rightarrow> v),
                    info_metadata = label_metadata (c_labels c),
                    info_template = map_of (c_labels c) (LABEL_PREFIX @ ''.template''),
                    info_ports = None\<rparr>))"

definition orbstack_is_sandbox_running :: "orbstack_backend \<Rightarrow> string \<Rightarrow> error + bool" where
  \<comment> \<open>only \<open>SandboxNotFoundError\<close> is caught\<close>
  "orbstack_is_sandbox_running st sandbox_id =
     (case get_container st sandbox_id of
        Inl e \<Rightarrow> (if e = SandboxNotFoundError then Inr False else Inl e)
      | Inr h \<Rightarrow>
          (case reload st h of
             Inl e \<Rightarrow> Inl e
           | Inr c \<Rightarrow> Inr (c_status c = ''running'')))"

definition orbstack_kill_sandbox :: "orbstack_backend \<Rightarrow> string \<Rightarrow> bool \<times> orbstack_backend" where
  \<comment> \<open>every exception ends the call with \<open>False\<close>\<close>
  "orbstack_kill_sandbox st sandbox_id =
     (case get_container st sandbox_id of
        Inl e \<Rightarrow> (False, st)
      | Inr h \<Rightarrow>
          (case reload st h of
             Inl e \<Rightarrow> (False, st)
           | Inr c \<Rightarrow>
               (let c1 = (if c_status c = ''running'' then c\<lparr>c_status := ''exited''\<rparr> else c);
                    st1 = st\<lparr>runtime := (runtime st)(h \<mapsto> c1)\<rparr>;
                    st2 = st1\<lparr>runtime := (runtime st1)(h := None)\<rparr>;
                    workspace = path_div (Path (orb_workspace_dir st2)) sandbox_id;
                    cleaned =
                      (if orb_cleanup_workspace st2 \<and> path_exists (orb_host st2) workspace
                       then rmtree (orb_host st2) workspace
                       else Inr (orb_host st2))
                in case cleaned of
                     Inl e \<Rightarrow> (False, st2)
                   | Inr hs \<Rightarrow>
                       (True, st2\<lparr>orb_host := hs,
                                  active_containers :=
                                    (active_containers st2)(sandbox_id := None)\<rparr>))))"

definition orbstack_pause_sandbox :: "orbstack_backend \<Rightarrow> string \<Rightarrow> bool \<times> orbstack_backend" where
  "orbstack_pause_sandbox st sandbox_id =
     (case get_container st sandbox_id of
        Inl e \<Rightarrow> (False, st)
      | Inr h \<Rightarrow>
          (case runtime st h of
             None \<Rightarrow> (False, st)
           | Some c \<Rightarrow>
               if c_status c = ''running''
               then (True, st\<lparr>runtime := (runtime st)(h \<mapsto> c\<lparr>c_status := ''paused''\<rparr>)\<rparr>)
               else (False, st)))"

definition orbstack_resume_sandbox :: "orbstack_backend \<Rightarrow> string \<Rightarrow> bool \<times> orbstack_backend" where
  "orbstack_resume_sandbox st sandbox_id =
     (case get_container st sandbox_id of
        Inl e \<Rightarrow> (False, st)
      | Inr h \<Rightarrow>
          (case runtime st h of
             None \<Rightarrow> (False, st)
           | Some c \<Rightarrow>
               if c_status c = ''paused''
               then (True, st\<lparr>runtime := (runtime st)(h \<mapsto> c\<lparr>c_status := ''running''\<rparr>)\<rparr>)
               else (False, st)))"

subsection \<open>Command execution\<close>

definition orbstack_run_command ::
  "orbstack_backend \<Rightarrow> string \<Rightarrow> string \<Rightarrow> string option \<Rightarrow> (string \<times> string) list option
     \<Rightarrow> real option \<Rightarrow> bool \<Rightarrow> (error + CommandResult) \<times> orbstack_backend" where
  "orbstack_run_command st sandbox_id command cwd envs timeout shell =
     (case get_container st sandbox_id of
        Inl e \<Rightarrow> (Inl e, st)
      | Inr h \<Rightarrow>
          (let cmd = (if shell then [''/bin/sh'', ''-c'', command] else py_split_ws command);
               workdir = (if cwd \<noteq> None \<and> cwd \<noteq> Some [] then the cwd else ''/workspace'')
           in case exec_run st h cmd (Some workdir) envs of
                (Inl e, st1) \<Rightarrow> (Inl CommandExecutionError, st1)
              | (Inr res, st1) \<Rightarrow>
                  (Inr \<lparr>stdout = py_strip (case fst (er_streams res) of None \<Rightarrow> [] | Some s \<Rightarrow> s),
                        stderr = py_strip (case snd (er_streams res) of None \<Rightarrow> [] | Some s \<Rightarrow> s),
                        exit_code = er_exit_code res, pid = None\<rparr>,
                   st1)))"

definition orbstack_run_command_background ::
  "orbstack_backend \<Rightarrow> string \<Rightarrow> string \<Rightarrow> string option \<Rightarrow> (string \<times> string) list option
     \<Rightarrow> (error + CommandResult) \<times> orbstack_backend" where
  "orbstack_run_command_background st sandbox_id command cwd envs =
     (case get_container st sandbox_id of
        Inl e \<Rightarrow> (Inl e, st)
      | Inr h \<Rightarrow>
          (let bg_command = ''nohup '' @ command @ '' > /dev/null 2>&1 & echo $!'';
               cmd = [''/bin/sh'', ''-c'', bg_command];
               workdir = (if cwd \<noteq> None \<and> cwd \<noteq> Some [] then the cwd else ''/workspace'')
           in case exec_run st h cmd (Some workdir) envs of
                (Inl e, st1) \<Rightarrow> (Inl CommandExecutionError, st1)
              | (Inr res, st1) \<Rightarrow>
                  if er_output res = [] then
                    (Inr \<lparr>stdout = [], stderr = [], exit_code = 0, pid = None\<rparr>, st1)
                  else
                    (case utf8_decode (er_output res) of
                       None \<Rightarrow> (Inl CommandExecutionError, st1)
                     | Some s \<Rightarrow>
                         (Inr \<lparr>stdout = [], stderr = [], exit_code = 0,
                               pid = Some (py_strip s)\<rparr>, st1))))"

subsection \<open>File operations\<close>

definition orbstack_read_file_bytes :: "orbstack_backend \<Rightarrow> string \<Rightarrow> string \<Rightarrow> error + bytes" where
  "orbstack_read_file_bytes st sandbox_id path =
     (case get_container st sandbox_id of
        Inl e \<Rightarrow> Inl e
      | Inr h \<Rightarrow>
          (case runtime st h of
             None \<Rightarrow> Inl FileOperationError
           | Some c \<Rightarrow>
               (case get_archive c path of
                  Inl e \<Rightarrow> Inl FileOperationError
                | Inr members \<Rightarrow>
                    (case members of
                       [] \<Rightarrow> Inl FileOperationError
                     | (n, None) # ms \<Rightarrow> Inl FileOperationError
                     | (n, Some d) # ms \<Rightarrow> Inr d))))"

definition orbstack_read_file :: "orbstack_backend \<Rightarrow> string \<Rightarrow> string \<Rightarrow> error + pystr" where
  "orbstack_read_file st sandbox_id path =
     (case orbstack_read_file_bytes st sandbox_id path of
        Inl e \<Rightarrow> Inl e
      | Inr data \<Rightarrow> (case utf8_decode data of None \<Rightarrow> Inl UnicodeDecodeError | Some s \<Rightarrow> Inr s))"

definition orbstack_write_file_bytes ::
  "orbstack_backend \<Rightarrow> string \<Rightarrow> string \<Rightarrow> bytes \<Rightarrow> (error + FileInfo) \<times> orbstack_backend" where
  "orbstack_write_file_bytes st sandbox_id path data =
     (case get_container st sandbox_id of
        Inl e \<Rightarrow> (Inl e, st)
      | Inr h \<Rightarrow>
          (let tar = [(basename path, Some data)];
               directory = (if dirname path \<noteq> [] then dirname path else ''/workspace'')
           in case runtime st h of
                None \<Rightarrow> (Inl FileOperationError, st)
              | Some c \<Rightarrow>
                  (case put_archive c directory tar of
                     Inl e \<Rightarrow> (Inl FileOperationError, st)
                   | Inr c' \<Rightarrow>
                       (Inr \<lparr>fi_name = basename path, fi_path = path, fi_type = ''file'',
                             fi_size = int (length data), fi_permissions = ''644'',
                             fi_modified_at = None\<rparr>,
                        st\<lparr>runtime := (runtime st)(h \<mapsto> c')\<rparr>))))"

definition orbstack_write_file ::
  "orbstack_backend \<Rightarrow> string \<Rightarrow> string \<Rightarrow> pystr \<Rightarrow> (error + FileInfo) \<times> orbstack_backend" where
  "orbstack_write_file st sandbox_id path content =
     orbstack_write_file_bytes st sandbox_id path (utf8_encode content)"

definition sh :: "string \<Rightarrow> string list" where
  "sh cmd = [''/bin/sh'', ''-c'', cmd]"

definition parse_find_line :: "pystr \<Rightarrow> (error + FileInfo) option" where
  \<comment> \<open>one round of the loop of \<open>list_files\<close>: \<open>None\<close> where the line is skipped\<close>
  "parse_find_line line =
     (if py_strip line = [] then None
      else (case py_split_ws_max 3 line of
              [file_type, sz, perms, filepath] \<Rightarrow>
                (case py_int sz of
                   None \<Rightarrow> Some (Inl ValueError)
                 | Some n \<Rightarrow>
                     Some (Inr \<lparr>fi_name = basename filepath, fi_path = filepath,
                                fi_type = (if file_type = ''d'' then ''dir'' else ''file''),
                                fi_size = n, fi_permissions = perms, fi_modified_at = None\<rparr>))
            | _ \<Rightarrow> None))"

fun collect_files :: "pystr list \<Rightarrow> error + FileInfo list" where
  "collect_files [] = Inr []"
| "collect_files (line # lines) =
     (case parse_find_line line of
        None \<Rightarrow> collect_files lines
      | Some (Inl e) \<Rightarrow> Inl e
      | Some (Inr fi) \<Rightarrow>
          (case collect_files lines of Inl e \<Rightarrow> Inl e | Inr fis \<Rightarrow> Inr (fi # fis)))"

definition orbstack_list_files ::
  "orbstack_backend \<Rightarrow> string \<Rightarrow> string \<Rightarrow> int \<Rightarrow> (error + FileInfo list) \<times> orbstack_backend" where
  "orbstack_list_files st sandbox_id path depth =
     (case get_container st sandbox_id of
        Inl e \<Rightarrow> (Inl e, st)
      | Inr h \<Rightarrow>
          (let cmd = ''find '' @ path @ '' -maxdepth '' @ py_str_int depth
                       @ '' -printf '' @ [CHR 0x27] @ ''%y %s %m %p'' @ [CHR 0x5C] @ ''n''
                       @ [CHR 0x27] @ '' 2>/dev/null''
           in case exec_run st h (sh cmd) None None of
                (Inl e, st1) \<Rightarrow> (Inl e, st1)
              | (Inr res, st1) \<Rightarrow>
                  if er_output res = [] then (Inr [], st1)
                  else (case utf8_decode (er_output res) of
                          None \<Rightarrow> (Inl UnicodeDecodeError, st1)
                        | Some s \<Rightarrow> (collect_files (split_lines s), st1))))"

definition orbstack_file_exists ::
  "orbstack_backend \<Rightarrow> string \<Rightarrow> string \<Rightarrow> (error + bool) \<times> orbstack_backend" where
  "orbstack_file_exists st sandbox_id path =
     (case get_container st sandbox_id of
        Inl e \<Rightarrow> (Inl e, st)
      | Inr h \<Rightarrow>
          (case exec_run st h (sh (''test -e '' @ path @ '' && echo yes'')) None None of
             (Inl e, st1) \<Rightarrow> (Inl e, st1)
           | (Inr res, st1) \<Rightarrow>
               (Inr (er_output res \<noteq> [] \<and> contains ''yes'' (er_output res)), st1)))"

definition orbstack_get_file_info ::
  "orbstack_backend \<Rightarrow> string \<Rightarrow> string \<Rightarrow> (error + FileInfo) \<times> orbstack_backend" where
  "orbstack_get_file_info st sandbox_id path =
     (case get_container st sandbox_id of
        Inl e \<Rightarrow> (Inl e, st)
      | Inr h \<Rightarrow>
          (let cmd = ''stat -c '' @ [CHR 0x27] @ ''%F %s %a %n'' @ [CHR 0x27] @ '' '' @ path
                       @ '' 2>/dev/null''
           in case exec_run st h (sh cmd) None None of
                (Inl e, st1) \<Rightarrow> (Inl e, st1)
              | (Inr res, st1) \<Rightarrow>
                  if er_exit_code res \<noteq> 0 then (Inl FileOperationError, st1)
                  else (case utf8_decode (er_output res) of
                          None \<Rightarrow> (Inl UnicodeDecodeError, st1)
                        | Some s \<Rightarrow>
                            (case py_split_ws_max 3 (py_strip s) of
                               [p0, p1, p2, p3] \<Rightarrow>
                                 (case py_int p1 of
                                    None \<Rightarrow> (Inl ValueError, st1)
                                  | Some n \<Rightarrow>
                                      (Inr \<lparr>fi_name = basename p3, fi_path = p3,
                                            fi_type = (if contains ''directory'' (py_lower p0)
                                                       then ''dir'' else ''file''),
                                            fi_size = n, fi_permissions = p2,
                                            fi_modified_at = None\<rparr>, st1))
                             | _ \<Rightarrow> (Inl FileOperationError, st1)))))"

definition orbstack_remove_file ::
  "orbstack_backend \<Rightarrow> string \<Rightarrow> string \<Rightarrow> (error + unit) \<times> orbstack_backend" where
  "orbstack_remove_file st sandbox_id path =
     (case get_container st sandbox_id of
        Inl e \<Rightarrow> (Inl e, st)
      | Inr h \<Rightarrow>
          (case exec_run st h (sh (''rm -rf '' @ path)) None None of
             (Inl e, st1) \<Rightarrow> (Inl e, st1)
           | (Inr res, st1) \<Rightarrow>
               if er_exit_code res \<noteq> 0 then (Inl FileOperationError, st1) else (Inr (), st1)))"

definition orbstack_make_directory ::
  "orbstack_backend \<Rightarrow> string \<Rightarrow> string \<Rightarrow> (error + bool) \<times> orbstack_backend" where
  "orbstack_make_directory st sandbox_id path =
     (case get_container st sandbox_id of
        Inl e \<Rightarrow> (Inl e, st)
      | Inr h \<Rightarrow>
          (case exec_run st h (sh (''mkdir -p '' @ path)) None None of
             (Inl e, st1) \<Rightarrow> (Inl e, st1)
           | (Inr res, st1) \<Rightarrow> (Inr (er_exit_code res = 0), st1)))"

definition orbstack_rename_file ::
  "orbstack_backend \<Rightarrow> string \<Rightarrow> string \<Rightarrow> string \<Rightarrow> (error + FileInfo) \<times> orbstack_backend" where
  "orbstack_rename_file st sandbox_id old_path new_path =
     (case get_container st sandbox_id of
        Inl e \<Rightarrow> (Inl e, st)
      | Inr h \<Rightarrow>
          (case exec_run st h (sh (''mv '' @ old_path @ '' '' @ new_path)) None None of
             (Inl e, st1) \<Rightarrow> (Inl e, st1)
           | (Inr res, st1) \<Rightarrow>
               if er_exit_code res \<noteq> 0 then (Inl FileOperationError, st1)
               else orbstack_get_file_info st1 sandbox_id new_path))"

definition orbstack_get_host :: "orbstack_backend \<Rightarrow> string \<Rightarrow> int \<Rightarrow> string" where
  "orbstack_get_host st sandbox_id port = ''http://localhost:'' @ py_str_int port"

definition tmux_get_host :: "tmux_backend \<Rightarrow> string \<Rightarrow> int \<Rightarrow> string" where
  "tmux_get_host b sandbox_id port = ''http://localhost:'' @ py_str_int port"

section \<open>Example states\<close>

text \<open>
  A terminal backend with one live sandbox \<open>sbx_1\<close> whose workspace directory exists,
  and a container backend with one running container \<open>sbx_1\<close> whose \<open>/workspace\<close>
  exists. In the container every process started by \<open>exec_run\<close> exits with code 0
  after 120 seconds, without output and without touching the container.
\<close>

definition example_info :: session_info where
  "example_info =
     \<lparr>si_sandbox_id = ''sbx_1'', si_workspace = ''/tmp/ws/sbx_1'',
      si_created_at = ''2025-01-01T00:00:00'', si_template = None, si_timeout = None,
      si_metadata = [], si_envs = []\<rparr>"

definition example_host :: host where
  "example_host =
     \<lparr>host_cwd = [],
      files = [[''tmp''] \<mapsto> Dir, [''tmp'', ''ws''] \<mapsto> Dir, [''tmp'', ''cap''] \<mapsto> Dir,
               [''tmp'', ''ws'', ''sbx_1''] \<mapsto> Dir],
      new_file_mode = ''644''\<rparr>"

definition tmux_example :: tmux_backend where
  "tmux_example =
     \<lparr>workspace_dir = ''/tmp/ws'', capture_dir = ''/tmp/cap'', cleanup_workspace = True,
      sessions = [''sbx_1'' \<mapsto> example_info],
      server = [''sbx_1'' \<mapsto> \<lparr>start_directory = ''/tmp/ws/sbx_1'', environment = [], keys = []\<rparr>],
      info_files = [''sbx_1'' \<mapsto> example_info],
      hst = example_host\<rparr>"

definition example_container :: container where
  "example_container =
     \<lparr>c_status = ''running'',
      c_labels = [(''agent-sandbox.sandbox_id'', ''sbx_1''),
                  (''agent-sandbox.created_by'', ''agent-sandbox-cli''),
                  (''agent-sandbox.template'', ''base''),
                  (''agent-sandbox.created_at'', ''2025-01-01T00:00:00'')],
      c_created = ''2025-01-01T00:00:00Z'',
      c_files = [[''workspace''] \<mapsto> Dir]\<rparr>"

definition orbstack_example :: orbstack_backend where
  "orbstack_example =
     \<lparr>orb_workspace_dir = ''/tmp/sandboxes'', orb_cleanup_workspace = False,
      active_containers = [''sbx_1'' \<mapsto> \<lparr>ac_workspace = ''/tmp/sandboxes/sbx_1'',
                                           ac_template = None\<rparr>],
      runtime = [''sbx_1'' \<mapsto> example_container],
      exec_oracle = (\<lambda>c cmd workdir envs.
         Inr (\<lparr>er_exit_code = 0, er_output = [], er_streams = (None, None),
               er_duration = 120\<rparr>, c)),
      orb_host = example_host\<rparr>"




text \<open>
  The terminal backend of the example with a regular file \<open>a\<close> in the workspace of
  \<open>sbx_1\<close>.
\<close>

definition tmux_blocked :: tmux_backend where
  "tmux_blocked =
     tmux_example\<lparr>hst := example_host\<lparr>files :=
       (files example_host)([''tmp'', ''ws'', ''sbx_1'', ''a''] \<mapsto> File ''644'' ''x'')\<rparr>\<rparr>"

section \<open>Properties of the factory\<close>

lemma register_backend_instances: "instances (register_backend f name c) = instances f"
  by (simp add: register_backend_def)

lemma register_default_instances: "instances (register_default_backends f) = instances f"
  by (simp add: register_default_backends_def register_backend_instances)

lemma create_backend_cached:
  assumes "map_of (instances f) (py_lower name) = Some inst"
  shows "create_backend ok f name cfg True = (Inr inst, f)"
  using assms by (simp add: create_backend_def)

lemma create_backend_caches:
  assumes "create_backend ok f name cfg True = (Inr inst, f1)"
  shows "map_of (instances f1) (py_lower name) = Some inst"
proof (cases "map_of (instances f) (py_lower name)")
  case (Some i)
  with assms show ?thesis by (simp add: create_backend_def)
next
  case None
  with assms show ?thesis
    by (auto simp: create_backend_def Let_def update_conv register_default_instances
        split: option.splits sum.splits if_splits)
qed

lemma factory_step_keeps:
  assumes "map_of (instances f) k = Some inst"
  shows "map_of (instances (factory_step ok f call)) k = Some inst"
proof (cases call)
  case (CreateBackend name cfg cache)
  show ?thesis
  proof (cases "cache \<and> map_of (instances f) (py_lower name) \<noteq> None")
    case True
    then show ?thesis using assms CreateBackend
      by (auto simp: create_backend_def)
  next
    case False
    then have none: "(if cache then map_of (instances f) (py_lower name) else None) = None"
      by auto
    have ne: "cache \<Longrightarrow> py_lower name \<noteq> k" using False assms by auto
    show ?thesis using assms CreateBackend none ne
      by (auto simp: create_backend_def Let_def update_conv register_default_instances
          split: option.splits sum.splits)
  qed
next
  case (RegisterBackend name c)
  then show ?thesis using assms by (simp add: register_backend_instances)
next
  case ListBackends
  then show ?thesis using assms
    by (simp add: list_backends_def Let_def register_default_instances)
qed

lemma factory_run_keeps:
  assumes "map_of (instances f) k = Some inst"
  shows "map_of (instances (factory_run ok f calls)) k = Some inst"
  using assms unfolding factory_run_def
proof (induction calls arbitrary: f)
  case Nil
  then show ?case by simp
next
  case (Cons c cs)
  from Cons.prems have "map_of (instances (factory_step ok f c)) k = Some inst"
    by (rule factory_step_keeps)
  then show ?case using Cons.IH by simp
qed

text \<open>
  C10. Once \<open>create_backend(name, config1, cache=True)\<close> has returned an instance, then
  after any run of further factory calls that does not contain \<open>clear_cache\<close>, a call
  \<open>create_backend(name, config2, cache=True)\<close> returns that same instance and leaves the
  factory as it is, whatever \<open>config2\<close> is and whether or not \<open>config2\<close> would pass
  validation (the result does not depend on \<open>ok'\<close>).
\<close>

theorem create_backend_returns_cached_instance:
  assumes "create_backend ok f name config1 True = (Inr inst, f1)"
  shows "create_backend ok' (factory_run ok'' f1 calls) name config2 True
           = (Inr inst, factory_run ok'' f1 calls)"
proof -
  from assms have "map_of (instances f1) (py_lower name) = Some inst"
    by (rule create_backend_caches)
  then have "map_of (instances (factory_run ok'' f1 calls)) (py_lower name) = Some inst"
    by (rule factory_run_keeps)
  then show ?thesis by (rule create_backend_cached)
qed

theorem create_backend_returns_cached_instance_witness:
  "create_backend (\<lambda>_ _. True) \<lparr>backends = [], instances = [], allocated = 0\<rparr> ''tmux''
       [(''workspace_dir'', ''/tmp/ws'')] True
     = (Inr \<lparr>inst_id = 0, inst_class = TmuxBackend, inst_config = [(''workspace_dir'', ''/tmp/ws'')]\<rparr>,
        \<lparr>backends = [(''orbstack'', OrbStackBackend), (''tmux'', TmuxBackend)],
         instances = [(''tmux'', \<lparr>inst_id = 0, inst_class = TmuxBackend,
                                  inst_config = [(''workspace_dir'', ''/tmp/ws'')]\<rparr>)],
         allocated = 1\<rparr>)
   \<and> create_backend (\<lambda>_ _. False)
        (factory_run (\<lambda>_ _. True)
           \<lparr>backends = [(''orbstack'', OrbStackBackend), (''tmux'', TmuxBackend)],
            instances = [(''tmux'', \<lparr>inst_id = 0, inst_class = TmuxBackend,
                                  inst_config = [(''workspace_dir'', ''/tmp/ws'')]\<rparr>)],
            allocated = 1\<rparr>
           [CreateBackend ''orbstack'' [] True, ListBackends])
        ''tmux'' [(''workspace_dir'', ''/elsewhere'')] True
     = (Inr \<lparr>inst_id = 0, inst_class = TmuxBackend, inst_config = [(''workspace_dir'', ''/tmp/ws'')]\<rparr>,
        factory_run (\<lambda>_ _. True)
           \<lparr>backends = [(''orbstack'', OrbStackBackend), (''tmux'', TmuxBackend)],
            instances = [(''tmux'', \<lparr>inst_id = 0, inst_class = TmuxBackend,
                                  inst_config = [(''workspace_dir'', ''/tmp/ws'')]\<rparr>)],
            allocated = 1\<rparr>
           [CreateBackend ''orbstack'' [] True, ListBackends])"
proof -
  have h: "create_backend (\<lambda>_ _. True) \<lparr>backends = [], instances = [], allocated = 0\<rparr> ''tmux''
       [(''workspace_dir'', ''/tmp/ws'')] True
     = (Inr \<lparr>inst_id = 0, inst_class = TmuxBackend, inst_config = [(''workspace_dir'', ''/tmp/ws'')]\<rparr>,
        \<lparr>backends = [(''orbstack'', OrbStackBackend), (''tmux'', TmuxBackend)],
         instances = [(''tmux'', \<lparr>inst_id = 0, inst_class = TmuxBackend,
                                  inst_config = [(''workspace_dir'', ''/tmp/ws'')]\<rparr>)],
         allocated = 1\<rparr>)"
    by (simp add: create_backend_def Let_def register_default_backends_def register_backend_def
        construct_def py_lower_def py_lower_char_def)
  note t = create_backend_returns_cached_instance [OF h, where ok' = "\<lambda>_ _. False"
      and ok'' = "\<lambda>_ _. True" and calls = "[CreateBackend ''orbstack'' [] True, ListBackends]"
      and ?config2.0 = "[(''workspace_dir'', ''/elsewhere'')]"]
  show ?thesis
    using h t by blast
qed

section \<open>Unknown and killed sandboxes\<close>

lemma tmux_kill_server: "tmux_kill_sandbox b sandbox_id = (r, b') \<Longrightarrow> server b' sandbox_id = None"
  by (auto simp: tmux_kill_sandbox_def Let_def split: sum.splits)

lemma tmux_unknown:
  assumes "\<not> session_exists b sandbox_id"
  shows "tmux_connect_sandbox b sandbox_id = (Inl SandboxNotFoundError, b)"
    and "tmux_get_sandbox_info b sandbox_id = Inl SandboxNotFoundError"
    and "tmux_run_command b env sandbox_id command cwd envs timeout shell
           = Some (Inl SandboxNotFoundError, b)"
    and "tmux_run_command_background b sandbox_id command cwd envs = (Inl SandboxNotFoundError, b)"
    and "tmux_is_sandbox_running b sandbox_id = False"
  using assms
  by (simp_all add: tmux_connect_sandbox_def tmux_get_sandbox_info_def tmux_run_command_def
      tmux_run_command_background_def tmux_is_sandbox_running_def)

lemma get_container_unknown:
  "active_containers st sandbox_id = None \<Longrightarrow> runtime st sandbox_id = None
     \<Longrightarrow> get_container st sandbox_id = Inl SandboxNotFoundError"
  by (simp add: get_container_def)

lemma orbstack_unknown_lifecycle:
  assumes "get_container st sandbox_id = Inl SandboxNotFoundError"
  shows "orbstack_get_sandbox_info st sandbox_id = Inl SandboxNotFoundError"
    and "orbstack_is_sandbox_running st sandbox_id = Inr False"
    and "orbstack_kill_sandbox st sandbox_id = (False, st)"
    and "orbstack_pause_sandbox st sandbox_id = (False, st)"
    and "orbstack_resume_sandbox st sandbox_id = (False, st)"
    and "orbstack_run_command st sandbox_id command cwd envs timeout shell
           = (Inl SandboxNotFoundError, st)"
    and "orbstack_run_command_background st sandbox_id command cwd envs
           = (Inl SandboxNotFoundError, st)"
  using assms
  by (simp_all add: orbstack_get_sandbox_info_def orbstack_is_sandbox_running_def
      orbstack_kill_sandbox_def orbstack_pause_sandbox_def orbstack_resume_sandbox_def
      orbstack_run_command_def orbstack_run_command_background_def)

lemma orbstack_unknown_files:
  assumes "get_container st sandbox_id = Inl SandboxNotFoundError"
  shows "orbstack_list_files st sandbox_id path depth = (Inl SandboxNotFoundError, st)"
    and "orbstack_read_file st sandbox_id path = Inl SandboxNotFoundError"
    and "orbstack_read_file_bytes st sandbox_id path = Inl SandboxNotFoundError"
    and "orbstack_write_file st sandbox_id path content = (Inl SandboxNotFoundError, st)"
    and "orbstack_write_file_bytes st sandbox_id path data = (Inl SandboxNotFoundError, st)"
    and "orbstack_file_exists st sandbox_id path = (Inl SandboxNotFoundError, st)"
    and "orbstack_get_file_info st sandbox_id path = (Inl SandboxNotFoundError, st)"
    and "orbstack_remove_file st sandbox_id path = (Inl SandboxNotFoundError, st)"
    and "orbstack_make_directory st sandbox_id path = (Inl SandboxNotFoundError, st)"
    and "orbstack_rename_file st sandbox_id path new_path = (Inl SandboxNotFoundError, st)"
  using assms
  by (simp_all add: orbstack_list_files_def orbstack_read_file_def orbstack_read_file_bytes_def
      orbstack_write_file_def orbstack_write_file_bytes_def orbstack_file_exists_def
      orbstack_get_file_info_def orbstack_remove_file_def orbstack_make_directory_def
      orbstack_rename_file_def)

lemma orbstack_connect_unknown:
  "runtime st sandbox_id = None \<Longrightarrow> orbstack_connect_sandbox st sandbox_id = (Inl SandboxNotFoundError, st)"
  by (simp add: orbstack_connect_sandbox_def)

lemma orbstack_kill_gone:
  assumes "orbstack_kill_sandbox st sandbox_id = (True, st')"
  shows "get_container st' sandbox_id = Inl SandboxNotFoundError"
  using assms
  by (auto simp: orbstack_kill_sandbox_def get_container_def Let_def
      split: sum.splits option.splits if_splits)

text \<open>
  C6. On either backend, once \<open>kill_sandbox\<close> has returned \<open>True\<close> for an id,
  \<open>is_sandbox_running\<close> on that id returns \<open>False\<close>, and \<open>get_sandbox_info\<close> and
  \<open>run_command\<close> on it fail with \<open>SandboxNotFoundError\<close> (and \<open>run_command\<close> leaves
  the state as it is).
\<close>

theorem killed_sandbox_is_gone:
  "(tmux_kill_sandbox b sandbox_id = (True, b') \<longrightarrow>
      tmux_is_sandbox_running b' sandbox_id = False
    \<and> tmux_get_sandbox_info b' sandbox_id = Inl SandboxNotFoundError
    \<and> tmux_run_command b' env sandbox_id command cwd envs timeout shell
        = Some (Inl SandboxNotFoundError, b'))
 \<and> (orbstack_kill_sandbox st sandbox_id = (True, st') \<longrightarrow>
      orbstack_is_sandbox_running st' sandbox_id = Inr False
    \<and> orbstack_get_sandbox_info st' sandbox_id = Inl SandboxNotFoundError
    \<and> orbstack_run_command st' sandbox_id command cwd envs timeout shell
        = (Inl SandboxNotFoundError, st'))"
proof (intro conjI impI)
  assume k: "tmux_kill_sandbox b sandbox_id = (True, b')"
  then have gone: "\<not> session_exists b' sandbox_id"
    by (simp add: session_exists_def tmux_kill_server)
  show "tmux_is_sandbox_running b' sandbox_id = False" by (rule tmux_unknown(5) [OF gone])
  show "tmux_get_sandbox_info b' sandbox_id = Inl SandboxNotFoundError"
    by (rule tmux_unknown(2) [OF gone])
  show "tmux_run_command b' env sandbox_id command cwd envs timeout shell
        = Some (Inl SandboxNotFoundError, b')"
    by (rule tmux_unknown(3) [OF gone])
next
  assume k: "orbstack_kill_sandbox st sandbox_id = (True, st')"
  then have gone: "get_container st' sandbox_id = Inl SandboxNotFoundError"
    by (rule orbstack_kill_gone)
  show "orbstack_is_sandbox_running st' sandbox_id = Inr False"
    by (rule orbstack_unknown_lifecycle(2) [OF gone])
  show "orbstack_get_sandbox_info st' sandbox_id = Inl SandboxNotFoundError"
    by (rule orbstack_unknown_lifecycle(1) [OF gone])
  show "orbstack_run_command st' sandbox_id command cwd envs timeout shell
        = (Inl SandboxNotFoundError, st')"
    by (rule orbstack_unknown_lifecycle(6) [OF gone])
qed

lemma tmux_example_killed: "fst (tmux_kill_sandbox tmux_example ''sbx_1'') = True"
  by code_simp

lemma orbstack_example_killed: "fst (orbstack_kill_sandbox orbstack_example ''sbx_1'') = True"
  by code_simp

theorem killed_sandbox_is_gone_witness:
  "tmux_kill_sandbox tmux_example ''sbx_1'' = (True, snd (tmux_kill_sandbox tmux_example ''sbx_1''))
   \<and> tmux_is_sandbox_running (snd (tmux_kill_sandbox tmux_example ''sbx_1'')) ''sbx_1'' = False
   \<and> tmux_get_sandbox_info (snd (tmux_kill_sandbox tmux_example ''sbx_1'')) ''sbx_1''
        = Inl SandboxNotFoundError
   \<and> tmux_run_command (snd (tmux_kill_sandbox tmux_example ''sbx_1''))
        \<lparr>end_hex = ''00000000'', exit_hex = ''abcdef01'', ticks = []\<rparr>
        ''sbx_1'' ''echo hello'' None None (Some 5) True
        = Some (Inl SandboxNotFoundError, snd (tmux_kill_sandbox tmux_example ''sbx_1''))
   \<and> orbstack_kill_sandbox orbstack_example ''sbx_1''
        = (True, snd (orbstack_kill_sandbox orbstack_example ''sbx_1''))
   \<and> orbstack_is_sandbox_running (snd (orbstack_kill_sandbox orbstack_example ''sbx_1'')) ''sbx_1''
        = Inr False
   \<and> orbstack_get_sandbox_info (snd (orbstack_kill_sandbox orbstack_example ''sbx_1'')) ''sbx_1''
        = Inl SandboxNotFoundError
   \<and> orbstack_run_command (snd (orbstack_kill_sandbox orbstack_example ''sbx_1'')) ''sbx_1''
        ''echo hello'' None None (Some 5) True
        = (Inl SandboxNotFoundError, snd (orbstack_kill_sandbox orbstack_example ''sbx_1''))"
proof -
  have t: "tmux_kill_sandbox tmux_example ''sbx_1''
             = (True, snd (tmux_kill_sandbox tmux_example ''sbx_1''))"
    using tmux_example_killed by (simp add: prod_eq_iff)
  have o: "orbstack_kill_sandbox orbstack_example ''sbx_1''
             = (True, snd (orbstack_kill_sandbox orbstack_example ''sbx_1''))"
    using orbstack_example_killed by (simp add: prod_eq_iff)
  note k = killed_sandbox_is_gone [where b = tmux_example and sandbox_id = "''sbx_1''"
      and b' = "snd (tmux_kill_sandbox tmux_example ''sbx_1'')"
      and st = orbstack_example and st' = "snd (orbstack_kill_sandbox orbstack_example ''sbx_1'')"
      and env = "\<lparr>end_hex = ''00000000'', exit_hex = ''abcdef01'', ticks = []\<rparr>"
      and command = "''echo hello''" and cwd = None and envs = None and timeout = "Some 5"
      and shell = True]
  from k t o show ?thesis by blast
qed

lemma example_unknown:
  "\<not> session_exists tmux_example ''sbx_9''"
  "active_containers orbstack_example ''sbx_9'' = None \<and> runtime orbstack_example ''sbx_9'' = None"
  by (simp_all add: session_exists_def tmux_example_def orbstack_example_def)

lemma example_port: "py_str_int 8080 = ''8080''"
  by (simp add: py_str_int_def nat_str.simps)

text \<open>
  C1, as the code has it. For a sandbox id the backend does not know (no session of that
  name on the terminal backend; neither cached nor known to the runtime on the container
  backend), \<open>connect_sandbox\<close>, \<open>get_sandbox_info\<close>, \<open>run_command\<close> and
  \<open>run_command_background\<close> of both backends and every file operation of the container
  backend fail with \<open>SandboxNotFoundError\<close> and leave the state as it is, while
  \<open>is_sandbox_running\<close>, \<open>pause_sandbox\<close> and \<open>resume_sandbox\<close> of both backends and
  \<open>kill_sandbox\<close> of the container backend answer \<open>False\<close>, without a change of
  state either, and \<open>get_host\<close> of both backends returns the same URL whatever the id.
  The file operations and \<open>kill_sandbox\<close> of the terminal backend never consult the
  session; the statement says nothing about them.
\<close>

theorem unknown_sandbox_not_found:
  "(\<not> session_exists b sandbox_id \<longrightarrow>
       tmux_connect_sandbox b sandbox_id = (Inl SandboxNotFoundError, b)
     \<and> tmux_get_sandbox_info b sandbox_id = Inl SandboxNotFoundError
     \<and> tmux_run_command b env sandbox_id command cwd envs timeout shell
         = Some (Inl SandboxNotFoundError, b)
     \<and> tmux_run_command_background b sandbox_id command cwd envs = (Inl SandboxNotFoundError, b)
     \<and> tmux_is_sandbox_running b sandbox_id = False
     \<and> tmux_pause_sandbox b sandbox_id = False
     \<and> tmux_resume_sandbox b sandbox_id = False)
 \<and> tmux_get_host b sandbox_id port = tmux_get_host b other_id port
 \<and> orbstack_get_host st sandbox_id port = orbstack_get_host st other_id port
 \<and> (active_containers st sandbox_id = None \<and> runtime st sandbox_id = None \<longrightarrow>
       orbstack_connect_sandbox st sandbox_id = (Inl SandboxNotFoundError, st)
     \<and> orbstack_get_sandbox_info st sandbox_id = Inl SandboxNotFoundError
     \<and> orbstack_run_command st sandbox_id command cwd envs timeout shell
         = (Inl SandboxNotFoundError, st)
     \<and> orbstack_run_command_background st sandbox_id command cwd envs
         = (Inl SandboxNotFoundError, st)
     \<and> orbstack_list_files st sandbox_id path depth = (Inl SandboxNotFoundError, st)
     \<and> orbstack_read_file st sandbox_id path = Inl SandboxNotFoundError
     \<and> orbstack_read_file_bytes st sandbox_id path = Inl SandboxNotFoundError
     \<and> orbstack_write_file st sandbox_id path content = (Inl SandboxNotFoundError, st)
     \<and> orbstack_write_file_bytes st sandbox_id path data = (Inl SandboxNotFoundError, st)
     \<and> orbstack_file_exists st sandbox_id path = (Inl SandboxNotFoundError, st)
     \<and> orbstack_get_file_info st sandbox_id path = (Inl SandboxNotFoundError, st)
     \<and> orbstack_remove_file st sandbox_id path = (Inl SandboxNotFoundError, st)
     \<and> orbstack_make_directory st sandbox_id path = (Inl SandboxNotFoundError, st)
     \<and> orbstack_rename_file st sandbox_id path new_path = (Inl SandboxNotFoundError, st)
     \<and> orbstack_is_sandbox_running st sandbox_id = Inr False
     \<and> orbstack_kill_sandbox st sandbox_id = (False, st)
     \<and> orbstack_pause_sandbox st sandbox_id = (False, st)
     \<and> orbstack_resume_sandbox st sandbox_id = (False, st))"
proof (intro conjI impI)
  assume u: "\<not> session_exists b sandbox_id"
  show "tmux_connect_sandbox b sandbox_id = (Inl SandboxNotFoundError, b)"
    by (rule tmux_unknown(1) [OF u])
  show "tmux_get_sandbox_info b sandbox_id = Inl SandboxNotFoundError"
    by (rule tmux_unknown(2) [OF u])
  show "tmux_run_command b env sandbox_id command cwd envs timeout shell
         = Some (Inl SandboxNotFoundError, b)"
    by (rule tmux_unknown(3) [OF u])
  show "tmux_run_command_background b sandbox_id command cwd envs = (Inl SandboxNotFoundError, b)"
    by (rule tmux_unknown(4) [OF u])
  show "tmux_is_sandbox_running b sandbox_id = False"
    by (rule tmux_unknown(5) [OF u])
  show "tmux_pause_sandbox b sandbox_id = False"
    by (simp add: tmux_pause_sandbox_def)
  show "tmux_resume_sandbox b sandbox_id = False"
    by (simp add: tmux_resume_sandbox_def)
next
  show "tmux_get_host b sandbox_id port = tmux_get_host b other_id port"
    by (simp add: tmux_get_host_def)
  show "orbstack_get_host st sandbox_id port = orbstack_get_host st other_id port"
    by (simp add: orbstack_get_host_def)
next
  assume "active_containers st sandbox_id = None \<and> runtime st sandbox_id = None"
  then have r: "runtime st sandbox_id = None"
    and g: "get_container st sandbox_id = Inl SandboxNotFoundError"
    by (simp_all add: get_container_unknown)
  show "orbstack_connect_sandbox st sandbox_id = (Inl SandboxNotFoundError, st)"
    by (rule orbstack_connect_unknown [OF r])
  show "orbstack_get_sandbox_info st sandbox_id = Inl SandboxNotFoundError"
    by (rule orbstack_unknown_lifecycle(1) [OF g])
  show "orbstack_run_command st sandbox_id command cwd envs timeout shell
         = (Inl SandboxNotFoundError, st)"
    by (rule orbstack_unknown_lifecycle(6) [OF g])
  show "orbstack_run_command_background st sandbox_id command cwd envs
         = (Inl SandboxNotFoundError, st)"
    by (rule orbstack_unknown_lifecycle(7) [OF g])
  show "orbstack_list_files st sandbox_id path depth = (Inl SandboxNotFoundError, st)"
    by (rule orbstack_unknown_files(1) [OF g])
  show "orbstack_read_file st sandbox_id path = Inl SandboxNotFoundError"
    by (rule orbstack_unknown_files(2) [OF g])
  show "orbstack_read_file_bytes st sandbox_id path = Inl SandboxNotFoundError"
    by (rule orbstack_unknown_files(3) [OF g])
  show "orbstack_write_file st sandbox_id path content = (Inl SandboxNotFoundError, st)"
    by (rule orbstack_unknown_files(4) [OF g])
  show "orbstack_write_file_bytes st sandbox_id path data = (Inl SandboxNotFoundError, st)"
    by (rule orbstack_unknown_files(5) [OF g])
  show "orbstack_file_exists st sandbox_id path = (Inl SandboxNotFoundError, st)"
    by (rule orbstack_unknown_files(6) [OF g])
  show "orbstack_get_file_info st sandbox_id path = (Inl SandboxNotFoundError, st)"
    by (rule orbstack_unknown_files(7) [OF g])
  show "orbstack_remove_file st sandbox_id path = (Inl SandboxNotFoundError, st)"
    by (rule orbstack_unknown_files(8) [OF g])
  show "orbstack_make_directory st sandbox_id path = (Inl SandboxNotFoundError, st)"
    by (rule orbstack_unknown_files(9) [OF g])
  show "orbstack_rename_file st sandbox_id path new_path = (Inl SandboxNotFoundError, st)"
    by (rule orbstack_unknown_files(10) [OF g])
  show "orbstack_is_sandbox_running st sandbox_id = Inr False"
    by (rule orbstack_unknown_lifecycle(2) [OF g])
  show "orbstack_kill_sandbox st sandbox_id = (False, st)"
    by (rule orbstack_unknown_lifecycle(3) [OF g])
  show "orbstack_pause_sandbox st sandbox_id = (False, st)"
    by (rule orbstack_unknown_lifecycle(4) [OF g])
  show "orbstack_resume_sandbox st sandbox_id = (False, st)"
    by (rule orbstack_unknown_lifecycle(5) [OF g])
qed

theorem unknown_sandbox_not_found_witness:
  "\<not> session_exists tmux_example ''sbx_9''
   \<and> tmux_run_command tmux_example \<lparr>end_hex = ''00000000'', exit_hex = ''abcdef01'', ticks = []\<rparr>
        ''sbx_9'' ''echo hello'' None None (Some 5) True
        = Some (Inl SandboxNotFoundError, tmux_example)
   \<and> tmux_get_host tmux_example ''sbx_9'' 8080 = tmux_get_host tmux_example ''sbx_1'' 8080
   \<and> orbstack_get_host orbstack_example ''sbx_9'' 8080
        = orbstack_get_host orbstack_example ''sbx_1'' 8080
   \<and> active_containers orbstack_example ''sbx_9'' = None \<and> runtime orbstack_example ''sbx_9'' = None
   \<and> orbstack_write_file orbstack_example ''sbx_9'' ''/workspace/a.txt'' ''hi''
        = (Inl SandboxNotFoundError, orbstack_example)
   \<and> orbstack_kill_sandbox orbstack_example ''sbx_9'' = (False, orbstack_example)"
proof -
  note k = unknown_sandbox_not_found [where b = tmux_example and sandbox_id = "''sbx_9''"
      and st = orbstack_example and other_id = "''sbx_1''" and port = 8080
      and env = "\<lparr>end_hex = ''00000000'', exit_hex = ''abcdef01'', ticks = []\<rparr>"
      and command = "''echo hello''" and cwd = None and envs = None and timeout = "Some 5"
      and shell = True and path = "''/workspace/a.txt''" and content = "''hi''"]
  note t = k [THEN conjunct1, THEN mp, OF example_unknown(1)]
  note o = k [THEN conjunct2, THEN conjunct2, THEN conjunct2, THEN mp, OF example_unknown(2)]
  show ?thesis
    by (intro conjI example_unknown(1)
        t [THEN conjunct2, THEN conjunct2, THEN conjunct1]
        k [THEN conjunct2, THEN conjunct1]
        k [THEN conjunct2, THEN conjunct2, THEN conjunct1]
        example_unknown(2) [THEN conjunct1] example_unknown(2) [THEN conjunct2]
        o [THEN conjunct2, THEN conjunct2, THEN conjunct2, THEN conjunct2, THEN conjunct2,
           THEN conjunct2, THEN conjunct2, THEN conjunct1]
        o [THEN conjunct2, THEN conjunct2, THEN conjunct2, THEN conjunct2, THEN conjunct2,
           THEN conjunct2, THEN conjunct2, THEN conjunct2, THEN conjunct2, THEN conjunct2,
           THEN conjunct2, THEN conjunct2, THEN conjunct2, THEN conjunct2, THEN conjunct2,
           THEN conjunct1])
qed

lemma example_unknown_write:
  "files (hst tmux_example) [''tmp'', ''ws'', ''sbx_9''] = None"
  "fst (tmux_write_file tmux_example ''sbx_9'' ''a.txt'' ''hi'')
     = Inr \<lparr>fi_name = ''a.txt'', fi_path = ''/tmp/ws/sbx_9/a.txt'', fi_type = ''file'',
            fi_size = 2, fi_permissions = ''644'', fi_modified_at = None\<rparr>"
  "files (hst (snd (tmux_write_file tmux_example ''sbx_9'' ''a.txt'' ''hi'')))
     [''tmp'', ''ws'', ''sbx_9''] = Some Dir"
  "files (hst (snd (tmux_write_file tmux_example ''sbx_9'' ''a.txt'' ''hi'')))
     [''tmp'', ''ws'', ''sbx_9'', ''a.txt''] = Some (File ''644'' ''hi'')"
  "fst (tmux_kill_sandbox tmux_example ''sbx_9'') = True"
  "tmux_read_file tmux_example ''sbx_9'' ''a.txt'' = Inl FileOperationError"
  "tmux_read_file_bytes tmux_example ''sbx_9'' ''a.txt'' = Inl FileOperationError"
  "fst (tmux_write_file_bytes tmux_example ''sbx_9'' ''a.txt'' ''hi'')
     = Inr \<lparr>fi_name = ''a.txt'', fi_path = ''/tmp/ws/sbx_9/a.txt'', fi_type = ''file'',
            fi_size = 2, fi_permissions = ''644'', fi_modified_at = None\<rparr>"
  "tmux_file_exists tmux_example ''sbx_9'' ''a.txt'' = False"
  "fst (tmux_make_directory tmux_example ''sbx_9'' ''d'') = Inr True"
  "files (hst (snd (tmux_make_directory tmux_example ''sbx_9'' ''d'')))
     [''tmp'', ''ws'', ''sbx_9'', ''d''] = Some Dir"
  by code_simp+

text \<open>
  C1, as stated, fails: for the unknown id \<open>sbx_9\<close>, \<open>kill_sandbox\<close> and
  \<open>is_sandbox_running\<close> of the container backend return \<open>False\<close> and \<open>get_host\<close>
  returns a URL. On the terminal backend \<open>is_sandbox_running\<close> and \<open>pause_sandbox\<close>
  return \<open>False\<close> and \<open>get_host\<close> returns a URL; \<open>kill_sandbox\<close> returns \<open>True\<close>;
  \<open>read_file\<close> and \<open>read_file_bytes\<close> fail with \<open>FileOperationError\<close> and
  \<open>file_exists\<close> returns \<open>False\<close>; \<open>write_file\<close> and \<open>write_file_bytes\<close> return a
  \<open>FileInfo\<close>, the first after it has created the directory \<open>/tmp/ws/sbx_9\<close>, absent
  before, and the file in it; and \<open>make_directory\<close> returns \<open>True\<close> after it has created
  a directory there. None of them fails with a not-found condition.
\<close>

theorem unknown_sandbox_answers_without_not_found:
  "get_container orbstack_example ''sbx_9'' = Inl SandboxNotFoundError
   \<and> orbstack_kill_sandbox orbstack_example ''sbx_9'' = (False, orbstack_example)
   \<and> orbstack_is_sandbox_running orbstack_example ''sbx_9'' = Inr False
   \<and> orbstack_get_host orbstack_example ''sbx_9'' 8080 = ''http://localhost:8080''
   \<and> \<not> session_exists tmux_example ''sbx_9''
   \<and> tmux_is_sandbox_running tmux_example ''sbx_9'' = False
   \<and> tmux_get_host tmux_example ''sbx_9'' 8080 = ''http://localhost:8080''
   \<and> tmux_pause_sandbox tmux_example ''sbx_9'' = False
   \<and> fst (tmux_kill_sandbox tmux_example ''sbx_9'') = True
   \<and> tmux_read_file tmux_example ''sbx_9'' ''a.txt'' = Inl FileOperationError
   \<and> tmux_read_file_bytes tmux_example ''sbx_9'' ''a.txt'' = Inl FileOperationError
   \<and> tmux_file_exists tmux_example ''sbx_9'' ''a.txt'' = False
   \<and> files (hst tmux_example) [''tmp'', ''ws'', ''sbx_9''] = None
   \<and> fst (tmux_write_file tmux_example ''sbx_9'' ''a.txt'' ''hi'')
       = Inr \<lparr>fi_name = ''a.txt'', fi_path = ''/tmp/ws/sbx_9/a.txt'', fi_type = ''file'',
              fi_size = 2, fi_permissions = ''644'', fi_modified_at = None\<rparr>
   \<and> files (hst (snd (tmux_write_file tmux_example ''sbx_9'' ''a.txt'' ''hi'')))
         [''tmp'', ''ws'', ''sbx_9''] = Some Dir
   \<and> files (hst (snd (tmux_write_file tmux_example ''sbx_9'' ''a.txt'' ''hi'')))
         [''tmp'', ''ws'', ''sbx_9'', ''a.txt''] = Some (File ''644'' ''hi'')
   \<and> fst (tmux_write_file_bytes tmux_example ''sbx_9'' ''a.txt'' ''hi'')
       = Inr \<lparr>fi_name = ''a.txt'', fi_path = ''/tmp/ws/sbx_9/a.txt'', fi_type = ''file'',
              fi_size = 2, fi_permissions = ''644'', fi_modified_at = None\<rparr>
   \<and> fst (tmux_make_directory tmux_example ''sbx_9'' ''d'') = Inr True
   \<and> files (hst (snd (tmux_make_directory tmux_example ''sbx_9'' ''d'')))
         [''tmp'', ''ws'', ''sbx_9'', ''d''] = Some Dir"
proof -
  have g: "get_container orbstack_example ''sbx_9'' = Inl SandboxNotFoundError"
    using example_unknown(2) by (simp add: get_container_unknown)
  have oh: "orbstack_get_host orbstack_example ''sbx_9'' 8080 = ''http://localhost:8080''"
    unfolding orbstack_get_host_def example_port by simp
  have th: "tmux_get_host tmux_example ''sbx_9'' 8080 = ''http://localhost:8080''"
    unfolding tmux_get_host_def example_port by simp
  have tp: "tmux_pause_sandbox tmux_example ''sbx_9'' = False"
    by (simp add: tmux_pause_sandbox_def)
  show ?thesis
    by (intro conjI g orbstack_unknown_lifecycle(3) [OF g] orbstack_unknown_lifecycle(2) [OF g]
        oh example_unknown(1) tmux_unknown(5) [OF example_unknown(1)] th tp
        example_unknown_write)
qed

text \<open>
  C5. The translated path of \<open>/workspace/foo\<close> is not underneath the workspace: the
  slice \<open>path[10:]\<close> keeps the slash after the prefix, and \<open>workspace / "/foo"\<close> is the
  absolute path \<open>/foo\<close>, in every state and for every sandbox; in the example the
  workspace is \<open>/tmp/ws/sbx_1\<close>.
\<close>

theorem get_full_path_workspace_prefix_escapes:
  "get_full_path b sandbox_id ''/workspace/foo'' = PPath ''/'' [''foo'']
   \<and> session_workspace tmux_example ''sbx_1'' = ''/tmp/ws/sbx_1''
   \<and> \<not> is_relative_to (get_full_path tmux_example ''sbx_1'' ''/workspace/foo'')
          (Path (session_workspace tmux_example ''sbx_1''))"
  by (simp add: get_full_path_def Let_def startswith_def path_div_def posixpath_join_def Path_def
      part_kept_def path_root_def is_relative_to_def session_workspace_def tmux_example_def
      example_info_def)

text \<open>
  C4. On the terminal backend the second of two \<open>kill_sandbox\<close> calls returns
  \<open>True\<close> as the first does, although the session is gone before the second call.
\<close>

theorem tmux_kill_sandbox_twice_returns_true:
  "session_exists tmux_example ''sbx_1''
   \<and> fst (tmux_kill_sandbox tmux_example ''sbx_1'') = True
   \<and> \<not> session_exists (snd (tmux_kill_sandbox tmux_example ''sbx_1'')) ''sbx_1''
   \<and> fst (tmux_kill_sandbox (snd (tmux_kill_sandbox tmux_example ''sbx_1'')) ''sbx_1'') = True"
  by code_simp

text \<open>
  C3. The container backend's \<open>run_command\<close> does not read its \<open>timeout\<close>: the
  result and the state are the same for any two timeouts, and in the example a command
  that takes 120 seconds under a timeout of 1 second returns its own exit code 0.
\<close>

theorem orbstack_run_command_ignores_timeout:
  "orbstack_run_command st sandbox_id command cwd envs timeout shell
     = orbstack_run_command st sandbox_id command cwd envs timeout' shell
   \<and> exec_oracle orbstack_example example_container [''/bin/sh'', ''-c'', ''sleep 120'']
        (Some ''/workspace'') None
     = Inr (\<lparr>er_exit_code = 0, er_output = [], er_streams = (None, None), er_duration = 120\<rparr>,
            example_container)
   \<and> orbstack_run_command orbstack_example ''sbx_1'' ''sleep 120'' None None (Some 1) True
     = (Inr \<lparr>stdout = [], stderr = [], exit_code = 0, pid = None\<rparr>, orbstack_example)"
  by (simp add: orbstack_run_command_def get_container_def exec_run_def Let_def
      orbstack_example_def py_strip_def)

section \<open>The completion protocol of the terminal backend\<close>
























section \<open>Writing and reading files\<close>

lemma walk_upd_file:
  "walk f cur cs = Inr d \<Longrightarrow> f t \<noteq> Some Dir \<Longrightarrow> walk (f(t \<mapsto> File m x)) cur cs = Inr d"
proof (induction cs arbitrary: cur)
  case Nil
  then show ?case by simp
next
  case (Cons c cs)
  show ?case
  proof (cases "c = ''..''")
    case True
    with Cons show ?thesis by simp
  next
    case False
    with Cons.prems(1) have dir: "f (cur @ [c]) = Some Dir" and w: "walk f (cur @ [c]) cs = Inr d"
      by (auto split: option.splits node.splits)
    from dir Cons.prems(2) have "cur @ [c] \<noteq> t" by auto
    with dir False Cons.IH [OF w Cons.prems(2)] show ?thesis by simp
  qed
qed

lemma locate_upd_file:
  assumes "locate h p = Inr loc" "files h t \<noteq> Some Dir"
  shows "locate (h\<lparr>files := (files h)(t \<mapsto> File m x)\<rparr>) p = Inr loc"
proof (cases "p_parts p = []")
  case True
  with assms show ?thesis by (auto simp: locate_def start_dir_def)
next
  case False
  define start where "start = start_dir h p"
  have l: "locate h p = (case walk (files h) start (butlast (p_parts p)) of
                           Inl e \<Rightarrow> Inl e
                         | Inr d \<Rightarrow> if last (p_parts p) = ''..'' then Inr (butlast d)
                                    else Inr (d @ [last (p_parts p)]))"
    using False by (simp add: locate_def start_def start_dir_def)
  have l': "locate (h\<lparr>files := (files h)(t \<mapsto> File m x)\<rparr>) p
              = (case walk ((files h)(t \<mapsto> File m x)) start (butlast (p_parts p)) of
                   Inl e \<Rightarrow> Inl e
                 | Inr d \<Rightarrow> if last (p_parts p) = ''..'' then Inr (butlast d)
                            else Inr (d @ [last (p_parts p)]))"
    using False by (simp add: locate_def start_def start_dir_def)
  from assms(1) l obtain d where w: "walk (files h) start (butlast (p_parts p)) = Inr d"
    by (cases "walk (files h) start (butlast (p_parts p))") auto
  have w': "walk ((files h)(t \<mapsto> File m x)) start (butlast (p_parts p)) = Inr d"
    using w assms(2) by (rule walk_upd_file)
  from assms(1) show ?thesis unfolding l l' w w' .
qed

lemma write_bytes_stat:
  assumes "write_bytes h p data = Inr h2"
  shows "\<exists>m. os_stat h2 p = Inr (File m data)"
proof -
  from assms obtain loc where loc: "locate h p = Inr loc"
    by (auto simp: write_bytes_def split: sum.splits)
  from assms loc have nd: "node_at (files h) loc \<noteq> Some Dir"
    by (auto simp: write_bytes_def split: option.splits node.splits)
  then have ne: "loc \<noteq> []" and fd: "files h loc \<noteq> Some Dir"
    by (auto simp: node_at_def split: if_splits)
  from assms loc obtain m where h2: "h2 = h\<lparr>files := (files h)(loc \<mapsto> File m data)\<rparr>"
    by (auto simp: write_bytes_def split: option.splits node.splits)
  have "locate h2 p = Inr loc" unfolding h2 using loc fd by (rule locate_upd_file)
  then have "os_stat h2 p = Inr (File m data)"
    using ne by (simp add: os_stat_def node_at_def h2)
  then show ?thesis ..
qed

lemma utf8_decode_ascii:
  "(of_char b :: nat) < 128 \<Longrightarrow> utf8_decode (b # bs) = map_option ((#) b) (utf8_decode bs)"
  by (cases bs) (simp_all add: Let_def)

lemma utf8_decode_char: "utf8_decode (utf8_char c @ bs) = map_option ((#) c) (utf8_decode bs)"
proof (cases "(of_char c :: nat) < 128")
  case True
  then show ?thesis by (simp add: utf8_char_def utf8_decode_ascii)
next
  case False
  define n where "n = (of_char c :: nat)"
  have n: "128 \<le> n" "n < 256" using False by (simp_all add: n_def)
  then have q: "n div 64 = 2 \<or> n div 64 = 3" by arith
  have b1: "(of_char (char_of (192 + n div 64)) :: nat) = 192 + n div 64"
    using q by auto
  have b2: "(of_char (char_of (128 + n mod 64)) :: nat) = 128 + n mod 64"
  proof -
    have "128 + n mod 64 < 256" by arith
    then show ?thesis by simp
  qed
  have bk: "char_of ((192 + n div 64 - 192) * 64 + (128 + n mod 64 - 128)) = c"
  proof -
    have "(192 + n div 64 - 192) * 64 + (128 + n mod 64 - 128) = n" by simp
    then show ?thesis by (simp add: n_def)
  qed
  have "utf8_char c = [char_of (192 + n div 64), char_of (128 + n mod 64)]"
    using False by (simp add: utf8_char_def n_def Let_def)
  then show ?thesis
    using q bk by (simp add: Let_def b1 b2 del: of_char_of)
qed

lemma utf8_roundtrip: "utf8_decode (utf8_encode s) = Some s"
  by (induction s) (simp_all add: utf8_encode_def utf8_decode_char)

lemma universal_newlines_id: "CHR 0x0D \<notin> set s \<Longrightarrow> universal_newlines s = s"
  by (induction s rule: universal_newlines.induct) auto

lemma session_workspace_hst:
  "session_workspace (b\<lparr>hst := h\<rparr>) sandbox_id = session_workspace b sandbox_id"
  by (cases "sessions b sandbox_id") (simp_all add: session_workspace_def)

lemma get_full_path_hst: "get_full_path (b\<lparr>hst := h\<rparr>) sandbox_id path = get_full_path b sandbox_id path"
  by (simp add: get_full_path_def session_workspace_hst)

lemma tmux_write_bytes_read:
  assumes "fst (tmux_write_file_bytes b sandbox_id path data) = Inr fi"
  shows "tmux_read_file_bytes (snd (tmux_write_file_bytes b sandbox_id path data)) sandbox_id path
           = Inr data"
proof -
  define fp where "fp = get_full_path b sandbox_id path"
  from assms obtain h1 h2 where
    w: "write_bytes h1 fp data = Inr h2"
    and b': "snd (tmux_write_file_bytes b sandbox_id path data) = b\<lparr>hst := h2\<rparr>"
    by (auto simp: tmux_write_file_bytes_def Let_def fp_def
        split: prod.splits option.splits sum.splits)
  from write_bytes_stat [OF w] obtain m where "os_stat h2 fp = Inr (File m data)" ..
  then show ?thesis
    unfolding b' by (simp add: tmux_read_file_bytes_def get_full_path_hst fp_def [symmetric]
        path_exists_def read_bytes_def)
qed

lemma tmux_write_text_read:
  assumes "fst (tmux_write_file b sandbox_id path content) = Inr fi"
  shows "tmux_read_file (snd (tmux_write_file b sandbox_id path content)) sandbox_id path
           = Inr (universal_newlines content)"
proof -
  define fp where "fp = get_full_path b sandbox_id path"
  from assms obtain h1 h2 where
    w: "write_bytes h1 fp (utf8_encode content) = Inr h2"
    and b': "snd (tmux_write_file b sandbox_id path content) = b\<lparr>hst := h2\<rparr>"
    by (auto simp: tmux_write_file_def write_text_def Let_def fp_def
        split: prod.splits option.splits sum.splits)
  from write_bytes_stat [OF w] obtain m where "os_stat h2 fp = Inr (File m (utf8_encode content))" ..
  then show ?thesis
    unfolding b' by (simp add: tmux_read_file_def get_full_path_hst fp_def [symmetric]
        path_exists_def read_text_def read_bytes_def utf8_roundtrip)
qed

lemma split_slash_nonempty: "split_slash s \<noteq> []"
  by (induction s) (auto split: list.splits)

lemma split_slash_noslash: "CHR ''/'' \<notin> set s \<Longrightarrow> split_slash s = [s]"
  by (induction s) auto

lemma split_slash_append: "split_slash (a @ CHR ''/'' # b) = split_slash a @ split_slash b"
proof (induction a)
  case Nil
  then show ?case by simp
next
  case (Cons c a)
  obtain p ps where "split_slash a = p # ps"
    using split_slash_nonempty [of a] by (cases "split_slash a") auto
  with Cons show ?case by simp
qed

lemma parts_trailing_slashes:
  "filter part_kept (split_slash (a @ replicate j (CHR ''/''))) = filter part_kept (split_slash a)"
proof (induction j)
  case 0
  then show ?case by simp
next
  case (Suc j)
  have "a @ replicate (Suc j) (CHR ''/'') = (a @ replicate j (CHR ''/'')) @ CHR ''/'' # []"
    by (simp add: replicate_append_same)
  then have "split_slash (a @ replicate (Suc j) (CHR ''/''))
               = split_slash (a @ replicate j (CHR ''/'')) @ [[]]"
    by (simp only: split_slash_append split_slash.simps)
  with Suc show ?case by (simp add: part_kept_def)
qed

lemma head_basename: "p = posix_head p @ basename p"
proof -
  have "rev (takeWhile (\<lambda>c. c \<noteq> CHR ''/'') (rev p) @ dropWhile (\<lambda>c. c \<noteq> CHR ''/'') (rev p))
          = posix_head p @ basename p"
    unfolding posix_head_def basename_def by (rule rev_append)
  then show ?thesis by simp
qed

lemma basename_noslash: "CHR ''/'' \<notin> set (basename p)"
  by (auto simp: basename_def dest: set_takeWhileD)

lemma posix_head_slash: "posix_head p = [] \<or> (\<exists>h. posix_head p = h @ [CHR ''/''])"
proof (cases "dropWhile (\<lambda>c. c \<noteq> CHR ''/'') (rev p)")
  case Nil
  then show ?thesis by (simp add: posix_head_def)
next
  case (Cons x xs)
  then have "x = CHR ''/''" using hd_dropWhile [of "\<lambda>c. c \<noteq> CHR ''/''" "rev p"] by auto
  with Cons show ?thesis by (simp add: posix_head_def)
qed

lemma head_dirname: "\<exists>j. posix_head p = dirname p @ replicate j (CHR ''/'')"
proof (cases "posix_head p \<noteq> [] \<and> posix_head p \<noteq> replicate (length (posix_head p)) (CHR ''/'')")
  case True
  define h where "h = posix_head p"
  define w where "w = takeWhile (\<lambda>c. c = CHR ''/'') (rev h)"
  have d: "dirname p = rev (dropWhile (\<lambda>c. c = CHR ''/'') (rev h))"
    using True by (simp add: dirname_def h_def Let_def)
  have "rev (takeWhile (\<lambda>c. c = CHR ''/'') (rev h) @ dropWhile (\<lambda>c. c = CHR ''/'') (rev h))
          = rev (dropWhile (\<lambda>c. c = CHR ''/'') (rev h)) @ rev w"
    unfolding w_def by (rule rev_append)
  then have h: "h = dirname p @ rev w" by (simp add: d)
  have "\<forall>y \<in> set (rev w). y = CHR ''/''" by (auto simp: w_def dest: set_takeWhileD)
  then have "replicate (length (rev w)) (CHR ''/'') = rev w" by (rule replicate_length_same)
  with h have "h = dirname p @ replicate (length (rev w)) (CHR ''/'')" by simp
  then show ?thesis unfolding h_def ..
next
  case False
  then have "dirname p = posix_head p" by (auto simp: dirname_def Let_def)
  then have "posix_head p = dirname p @ replicate 0 (CHR ''/'')" by simp
  then show ?thesis ..
qed

lemma p_parts_Path: "p_parts (Path s) = filter part_kept (split_slash s)"
  by (simp add: Path_def)

lemma parts_dirname_basename:
  assumes "basename p \<noteq> []" "basename p \<noteq> ''.''"
  shows "p_parts (Path p) = p_parts (Path (dirname p)) @ [basename p]"
proof -
  from head_dirname obtain j where j: "posix_head p = dirname p @ replicate j (CHR ''/'')" ..
  have dn: "filter part_kept (split_slash (posix_head p)) = filter part_kept (split_slash (dirname p))"
    unfolding j by (rule parts_trailing_slashes)
  have bn: "split_slash (basename p) = [basename p]"
    using basename_noslash by (rule split_slash_noslash)
  have kept: "part_kept (basename p)" using assms by (simp add: part_kept_def)
  show ?thesis
  proof (cases "posix_head p = []")
    case True
    then have p: "p = basename p" using head_basename [of p] by simp
    from True dn have "filter part_kept (split_slash (dirname p)) = []"
      by (simp add: part_kept_def)
    moreover have "filter part_kept (split_slash p) = [basename p]"
      using bn kept p by simp
    ultimately show ?thesis by (simp add: p_parts_Path)
  next
    case False
    with posix_head_slash obtain h where h: "posix_head p = h @ [CHR ''/'']" by blast
    have "p = h @ CHR ''/'' # basename p" using head_basename [of p] h by simp
    then have "split_slash p = split_slash h @ split_slash (basename p)"
      using split_slash_append [of h "basename p"] by simp
    then have a: "filter part_kept (split_slash p) = filter part_kept (split_slash h) @ [basename p]"
      using bn kept by simp
    have "posix_head p = h @ replicate 1 (CHR ''/'')" using h by simp
    then have "filter part_kept (split_slash (posix_head p)) = filter part_kept (split_slash h)"
      using parts_trailing_slashes [of h 1] by simp
    with dn a show ?thesis by (simp add: p_parts_Path)
  qed
qed

lemma get_container_Inr: "get_container st sandbox_id = Inr h \<Longrightarrow> h = sandbox_id"
  by (auto simp: get_container_def split: option.splits)

lemma put_archive_single:
  assumes "put_archive c directory [(n, Some data)] = Inr c'"
  shows "\<exists>d. walk (c_files c) [] (p_parts (Path directory)) = Inr d
             \<and> n \<noteq> [] \<and> n \<noteq> ''.'' \<and> n \<noteq> ''..'' \<and> c_files c (d @ [n]) \<noteq> Some Dir
             \<and> c' = c\<lparr>c_files := (c_files c)(d @ [n] \<mapsto> File ''644'' data)\<rparr>"
  using assms by (auto simp: put_archive_def split: sum.splits if_splits)

lemma stat_after_put:
  assumes w: "walk f [] (p_parts (Path (dirname p))) = Inr d"
    and n: "basename p \<noteq> []" "basename p \<noteq> ''.''" "basename p \<noteq> ''..''"
    and free: "f (d @ [basename p]) \<noteq> Some Dir"
  shows "os_stat \<lparr>host_cwd = [], files = f(d @ [basename p] \<mapsto> File m data), new_file_mode = k\<rparr> (Path p)
           = Inr (File m data)"
proof -
  have parts: "p_parts (Path p) = p_parts (Path (dirname p)) @ [basename p]"
    using n(1,2) by (rule parts_dirname_basename)
  have w': "walk (f(d @ [basename p] \<mapsto> File m data)) [] (p_parts (Path (dirname p))) = Inr d"
    using w free by (rule walk_upd_file)
  have "locate \<lparr>host_cwd = [], files = f(d @ [basename p] \<mapsto> File m data), new_file_mode = k\<rparr> (Path p)
          = Inr (d @ [basename p])"
    using n(3) by (simp add: locate_def start_dir_def parts w')
  then show ?thesis by (simp add: os_stat_def node_at_def)
qed

lemma orbstack_write_bytes_read:
  assumes "fst (orbstack_write_file_bytes st sandbox_id path data) = Inr fi" "dirname path \<noteq> []"
  shows "orbstack_read_file_bytes (snd (orbstack_write_file_bytes st sandbox_id path data))
           sandbox_id path = Inr data"
proof -
  from assms(1) obtain h where g: "get_container st sandbox_id = Inr h"
    by (cases "get_container st sandbox_id") (auto simp: orbstack_write_file_bytes_def)
  then have h: "h = sandbox_id" by (rule get_container_Inr)
  from assms g h obtain c c' where c: "runtime st sandbox_id = Some c"
    and put: "put_archive c (dirname path) [(basename path, Some data)] = Inr c'"
    and st': "snd (orbstack_write_file_bytes st sandbox_id path data)
                = st\<lparr>runtime := (runtime st)(sandbox_id \<mapsto> c')\<rparr>"
    by (auto simp: orbstack_write_file_bytes_def Let_def split: option.splits sum.splits)
  from put_archive_single [OF put] obtain d where
    w: "walk (c_files c) [] (p_parts (Path (dirname path))) = Inr d"
    and n: "basename path \<noteq> []" "basename path \<noteq> ''.''" "basename path \<noteq> ''..''"
    and free: "c_files c (d @ [basename path]) \<noteq> Some Dir"
    and c': "c' = c\<lparr>c_files := (c_files c)(d @ [basename path] \<mapsto> File ''644'' data)\<rparr>"
    by blast
  have stat: "os_stat (container_host c') (Path path) = Inr (File ''644'' data)"
    unfolding c' container_host_def using stat_after_put [OF w n free] by simp
  have g': "get_container (st\<lparr>runtime := (runtime st)(sandbox_id \<mapsto> c')\<rparr>) sandbox_id
              = Inr sandbox_id"
    by (simp add: get_container_def split: option.splits)
  show ?thesis
    unfolding st' by (simp add: orbstack_read_file_bytes_def g' get_archive_def stat)
qed

lemma orbstack_write_text_read:
  assumes "fst (orbstack_write_file st sandbox_id path content) = Inr fi" "dirname path \<noteq> []"
  shows "orbstack_read_file (snd (orbstack_write_file st sandbox_id path content))
           sandbox_id path = Inr content"
  using orbstack_write_bytes_read [of st sandbox_id path "utf8_encode content" fi] assms
  by (simp add: orbstack_write_file_def orbstack_read_file_def utf8_roundtrip)

lemma example_writes:
  "fst (tmux_write_file_bytes tmux_example ''sbx_1'' ''out/t.bin'' ''xyz'')
     = Inr \<lparr>fi_name = ''t.bin'', fi_path = ''/tmp/ws/sbx_1/out/t.bin'', fi_type = ''file'',
            fi_size = 3, fi_permissions = ''644'', fi_modified_at = None\<rparr>"
  "fst (tmux_write_file tmux_example ''sbx_1'' ''out/t.bin'' ''hi'')
     = Inr \<lparr>fi_name = ''t.bin'', fi_path = ''/tmp/ws/sbx_1/out/t.bin'', fi_type = ''file'',
            fi_size = 2, fi_permissions = ''644'', fi_modified_at = None\<rparr>"
  "fst (orbstack_write_file_bytes orbstack_example ''sbx_1'' ''/workspace/test.txt'' ''xyz'')
     = Inr \<lparr>fi_name = ''test.txt'', fi_path = ''/workspace/test.txt'', fi_type = ''file'',
            fi_size = 3, fi_permissions = ''644'', fi_modified_at = None\<rparr>"
  "fst (orbstack_write_file orbstack_example ''sbx_1'' ''/workspace/test.txt'' ''hi'')
     = Inr \<lparr>fi_name = ''test.txt'', fi_path = ''/workspace/test.txt'', fi_type = ''file'',
            fi_size = 2, fi_permissions = ''644'', fi_modified_at = None\<rparr>"
  "dirname ''/workspace/test.txt'' \<noteq> []"
  by code_simp+

text \<open>
  Where a read returns what was written. Whenever a write returns a \<open>FileInfo\<close>, the
  read of the same path that follows returns: on the terminal backend, exactly the bytes
  for \<open>write_file_bytes\<close> and \<open>read_file_bytes\<close>, and for \<open>write_file\<close> and
  \<open>read_file\<close> the text with every carriage return and line feed pair and every lone
  carriage return turned into a line feed, which is the text itself when it has no
  carriage return; on the container backend, for a path with a directory part, exactly
  the bytes and exactly the text.
\<close>

lemma write_then_read:
  "(fst (tmux_write_file_bytes b sandbox_id path data) = Inr fi1 \<longrightarrow>
      tmux_read_file_bytes (snd (tmux_write_file_bytes b sandbox_id path data)) sandbox_id path
        = Inr data)
 \<and> (fst (tmux_write_file b sandbox_id path content) = Inr fi2 \<longrightarrow>
      tmux_read_file (snd (tmux_write_file b sandbox_id path content)) sandbox_id path
        = Inr (universal_newlines content))
 \<and> (CHR 0x0D \<notin> set content \<longrightarrow> universal_newlines content = content)
 \<and> (fst (orbstack_write_file_bytes st sandbox_id path data) = Inr fi3 \<and> dirname path \<noteq> [] \<longrightarrow>
      orbstack_read_file_bytes (snd (orbstack_write_file_bytes st sandbox_id path data))
        sandbox_id path = Inr data)
 \<and> (fst (orbstack_write_file st sandbox_id path content) = Inr fi4 \<and> dirname path \<noteq> [] \<longrightarrow>
      orbstack_read_file (snd (orbstack_write_file st sandbox_id path content))
        sandbox_id path = Inr content)"
proof (intro conjI impI)
  assume "fst (tmux_write_file_bytes b sandbox_id path data) = Inr fi1"
  then show "tmux_read_file_bytes (snd (tmux_write_file_bytes b sandbox_id path data)) sandbox_id path
        = Inr data"
    by (rule tmux_write_bytes_read)
next
  assume "fst (tmux_write_file b sandbox_id path content) = Inr fi2"
  then show "tmux_read_file (snd (tmux_write_file b sandbox_id path content)) sandbox_id path
        = Inr (universal_newlines content)"
    by (rule tmux_write_text_read)
next
  assume "CHR 0x0D \<notin> set content"
  then show "universal_newlines content = content" by (rule universal_newlines_id)
next
  assume "fst (orbstack_write_file_bytes st sandbox_id path data) = Inr fi3 \<and> dirname path \<noteq> []"
  then show "orbstack_read_file_bytes (snd (orbstack_write_file_bytes st sandbox_id path data))
        sandbox_id path = Inr data"
    using orbstack_write_bytes_read by blast
next
  assume "fst (orbstack_write_file st sandbox_id path content) = Inr fi4 \<and> dirname path \<noteq> []"
  then show "orbstack_read_file (snd (orbstack_write_file st sandbox_id path content))
        sandbox_id path = Inr content"
    using orbstack_write_text_read by blast
qed

lemma write_then_read_example:
  "fst (tmux_write_file_bytes tmux_example ''sbx_1'' ''out/t.bin'' ''xyz'')
     = Inr \<lparr>fi_name = ''t.bin'', fi_path = ''/tmp/ws/sbx_1/out/t.bin'', fi_type = ''file'',
            fi_size = 3, fi_permissions = ''644'', fi_modified_at = None\<rparr>
   \<and> fst (orbstack_write_file_bytes orbstack_example ''sbx_1'' ''/workspace/test.txt'' ''xyz'')
     = Inr \<lparr>fi_name = ''test.txt'', fi_path = ''/workspace/test.txt'', fi_type = ''file'',
            fi_size = 3, fi_permissions = ''644'', fi_modified_at = None\<rparr>
   \<and> tmux_read_file_bytes (snd (tmux_write_file_bytes tmux_example ''sbx_1'' ''out/t.bin'' ''xyz''))
      ''sbx_1'' ''out/t.bin'' = Inr ''xyz''
   \<and> tmux_read_file (snd (tmux_write_file tmux_example ''sbx_1'' ''out/t.bin'' ''hi''))
      ''sbx_1'' ''out/t.bin'' = Inr ''hi''
   \<and> orbstack_read_file_bytes
        (snd (orbstack_write_file_bytes orbstack_example ''sbx_1'' ''/workspace/test.txt'' ''xyz''))
        ''sbx_1'' ''/workspace/test.txt'' = Inr ''xyz''
   \<and> orbstack_read_file
        (snd (orbstack_write_file orbstack_example ''sbx_1'' ''/workspace/test.txt'' ''hi''))
        ''sbx_1'' ''/workspace/test.txt'' = Inr ''hi''"
proof -
  note t = write_then_read [where b = tmux_example and sandbox_id = "''sbx_1''"
      and path = "''out/t.bin''" and data = "''xyz''" and content = "''hi''"]
  note o = write_then_read [where st = orbstack_example and sandbox_id = "''sbx_1''"
      and path = "''/workspace/test.txt''" and data = "''xyz''" and content = "''hi''"]
  have cr: "CHR 0x0D \<notin> set ''hi''" by simp
  have u: "universal_newlines ''hi'' = ''hi''"
    using t [THEN conjunct2, THEN conjunct2, THEN conjunct1] cr by (rule mp)
  have r1: "tmux_read_file_bytes (snd (tmux_write_file_bytes tmux_example ''sbx_1'' ''out/t.bin'' ''xyz''))
      ''sbx_1'' ''out/t.bin'' = Inr ''xyz''"
    using t [THEN conjunct1] example_writes(1) by (rule mp)
  have r2: "tmux_read_file (snd (tmux_write_file tmux_example ''sbx_1'' ''out/t.bin'' ''hi''))
      ''sbx_1'' ''out/t.bin'' = Inr (universal_newlines ''hi'')"
    using t [THEN conjunct2, THEN conjunct1] example_writes(2) by (rule mp)
  have r3: "orbstack_read_file_bytes
        (snd (orbstack_write_file_bytes orbstack_example ''sbx_1'' ''/workspace/test.txt'' ''xyz''))
        ''sbx_1'' ''/workspace/test.txt'' = Inr ''xyz''"
    using o [THEN conjunct2, THEN conjunct2, THEN conjunct2, THEN conjunct1]
      conjI [OF example_writes(3) example_writes(5)] by (rule mp)
  have r4: "orbstack_read_file
        (snd (orbstack_write_file orbstack_example ''sbx_1'' ''/workspace/test.txt'' ''hi''))
        ''sbx_1'' ''/workspace/test.txt'' = Inr ''hi''"
    using o [THEN conjunct2, THEN conjunct2, THEN conjunct2, THEN conjunct2]
      conjI [OF example_writes(4) example_writes(5)] by (rule mp)
  from r2 have r2': "tmux_read_file (snd (tmux_write_file tmux_example ''sbx_1'' ''out/t.bin'' ''hi''))
      ''sbx_1'' ''out/t.bin'' = Inr ''hi''"
    unfolding u .
  show ?thesis by (intro conjI example_writes(1) example_writes(3) r1 r2' r3 r4)
qed

lemma orbstack_bare_name_not_read_back:
  "fst (orbstack_write_file orbstack_example ''sbx_1'' ''bare.txt'' ''hi'')
     = Inr \<lparr>fi_name = ''bare.txt'', fi_path = ''bare.txt'', fi_type = ''file'',
            fi_size = 2, fi_permissions = ''644'', fi_modified_at = None\<rparr>
   \<and> c_files (the (runtime (snd (orbstack_write_file orbstack_example ''sbx_1'' ''bare.txt'' ''hi''))
                  ''sbx_1'')) [''workspace'', ''bare.txt'']
     = Some (File ''644'' ''hi'')
   \<and> orbstack_read_file (snd (orbstack_write_file orbstack_example ''sbx_1'' ''bare.txt'' ''hi''))
        ''sbx_1'' ''bare.txt''
     = Inl FileOperationError"
  by code_simp

lemma carriage_return_kept_elsewhere:
  "tmux_read_file_bytes
      (snd (tmux_write_file_bytes tmux_example ''sbx_1'' ''t.txt'' [CHR ''a'', CHR 0x0D, CHR 0x0A, CHR ''b'']))
      ''sbx_1'' ''t.txt''
     = Inr [CHR ''a'', CHR 0x0D, CHR 0x0A, CHR ''b'']
   \<and> orbstack_read_file
      (snd (orbstack_write_file orbstack_example ''sbx_1'' ''/workspace/t.txt''
              [CHR ''a'', CHR 0x0D, CHR 0x0A, CHR ''b'']))
      ''sbx_1'' ''/workspace/t.txt''
     = Inr [CHR ''a'', CHR 0x0D, CHR 0x0A, CHR ''b'']"
  by code_simp

text \<open>
  C7. On the terminal backend the text \<open>a\<close>, carriage return, line feed, \<open>b\<close> is
  written by \<open>write_file\<close>, which returns a \<open>FileInfo\<close> of size 4, and read back by
  \<open>read_file\<close> as \<open>a\<close>, line feed, \<open>b\<close>: not what was written.
\<close>

theorem tmux_text_round_trip_changes_newlines:
  "fst (tmux_write_file tmux_example ''sbx_1'' ''t.txt'' [CHR ''a'', CHR 0x0D, CHR 0x0A, CHR ''b''])
     = Inr \<lparr>fi_name = ''t.txt'', fi_path = ''/tmp/ws/sbx_1/t.txt'', fi_type = ''file'',
            fi_size = 4, fi_permissions = ''644'', fi_modified_at = None\<rparr>
   \<and> tmux_read_file
        (snd (tmux_write_file tmux_example ''sbx_1'' ''t.txt'' [CHR ''a'', CHR 0x0D, CHR 0x0A, CHR ''b'']))
        ''sbx_1'' ''t.txt''
     = Inr [CHR ''a'', CHR 0x0A, CHR ''b'']
   \<and> [CHR ''a'', CHR 0x0A, CHR ''b''] \<noteq> [CHR ''a'', CHR 0x0D, CHR 0x0A, CHR ''b'']"
  by code_simp

section \<open>Creating the parent directories\<close>

lemma start_dir_files: "start_dir (h\<lparr>files := g\<rparr>) p = start_dir h p"
  by (simp add: start_dir_def)

lemma os_mkdir_snoc_fail:
  "walk (files h) (start_dir h (PPath r (qs @ [x]))) qs = Inl e
     \<Longrightarrow> os_mkdir h (PPath r (qs @ [x])) = Inl e"
  by (simp add: os_mkdir_def)

lemma os_stat_upd_dir:
  assumes "os_stat h p = Inr Dir" "files h t \<noteq> Some Dir"
  shows "os_stat (h\<lparr>files := (files h)(t \<mapsto> File m x)\<rparr>) p = Inr Dir"
proof -
  from assms(1) obtain loc where loc: "locate h p = Inr loc" and n: "node_at (files h) loc = Some Dir"
    by (auto simp: os_stat_def split: sum.splits option.splits)
  have l': "locate (h\<lparr>files := (files h)(t \<mapsto> File m x)\<rparr>) p = Inr loc"
    using loc assms(2) by (rule locate_upd_file)
  have "node_at ((files h)(t \<mapsto> File m x)) loc = Some Dir"
    using n assms(2) by (auto simp: node_at_def split: if_splits)
  with l' show ?thesis by (simp add: os_stat_def)
qed

lemma utf8_encode_ascii:
  "\<forall>c \<in> set s. (of_char c :: nat) < 128 \<Longrightarrow> length (utf8_encode s) = length s"
  by (induction s) (simp_all add: utf8_encode_def utf8_char_def)

lemma resolve_append: "resolve cur (as @ bs) = resolve (resolve cur as) bs"
  by (induction as arbitrary: cur) simp_all

lemma resolve_snoc:
  "resolve cur (qs @ [x]) = (if x = ''..'' then butlast (resolve cur qs) else resolve cur qs @ [x])"
  by (simp add: resolve_append)

lemma dirs_to_iff: "dirs_to f loc \<longleftrightarrow> (\<forall>j. node_at f (take j loc) = Some Dir)"
proof
  assume d: "dirs_to f loc"
  then have le: "\<And>j. j \<le> length loc \<Longrightarrow> node_at f (take j loc) = Some Dir"
    by (simp add: dirs_to_def list_all_iff del: upt_Suc)
  show "\<forall>j. node_at f (take j loc) = Some Dir"
  proof
    fix j
    show "node_at f (take j loc) = Some Dir"
    proof (cases "j \<le> length loc")
      case True
      then show ?thesis by (rule le)
    next
      case False
      then have "take j loc = take (length loc) loc" by simp
      with le [of "length loc"] show ?thesis by simp
    qed
  qed
next
  assume "\<forall>j. node_at f (take j loc) = Some Dir"
  then show "dirs_to f loc" by (simp add: dirs_to_def list_all_iff del: upt_Suc)
qed

lemma dirs_to_self: "dirs_to f loc \<Longrightarrow> node_at f loc = Some Dir"
  unfolding dirs_to_iff using take_all [of loc "length loc"] by (metis order_refl)

lemma dirs_to_butlast: "dirs_to f loc \<Longrightarrow> dirs_to f (butlast loc)"
  unfolding dirs_to_iff by (simp add: butlast_conv_take)

lemma dirs_to_snoc: "dirs_to f loc \<Longrightarrow> f (loc @ [c]) = Some Dir \<Longrightarrow> dirs_to f (loc @ [c])"
  unfolding dirs_to_iff
proof
  fix j
  assume a: "\<forall>j. node_at f (take j loc) = Some Dir" and c: "f (loc @ [c]) = Some Dir"
  show "node_at f (take j (loc @ [c])) = Some Dir"
  proof (cases "j \<le> length loc")
    case True
    with a show ?thesis by simp
  next
    case False
    then have "take j (loc @ [c]) = loc @ [c]" by simp
    with c show ?thesis by (simp add: node_at_def)
  qed
qed

lemma walk_resolve:
  "dirs_to f cur \<Longrightarrow> walk f cur cs = Inr d \<Longrightarrow> d = resolve cur cs \<and> dirs_to f d"
proof (induction cs arbitrary: cur)
  case Nil
  then show ?case by simp
next
  case (Cons c cs)
  show ?case
  proof (cases "c = ''..''")
    case True
    with Cons.prems(2) have w: "walk f (butlast cur) cs = Inr d" by simp
    from Cons.IH [OF dirs_to_butlast [OF Cons.prems(1)] w] True show ?thesis by auto
  next
    case False
    with Cons.prems(2) have dir: "f (cur @ [c]) = Some Dir" and w: "walk f (cur @ [c]) cs = Inr d"
      by (auto split: option.splits node.splits)
    from Cons.IH [OF dirs_to_snoc [OF Cons.prems(1) dir] w] False show ?thesis by auto
  qed
qed

lemma walk_append:
  "walk f cur (as @ bs) = (case walk f cur as of Inl e \<Rightarrow> Inl e | Inr d \<Rightarrow> walk f d bs)"
  by (induction as arbitrary: cur) (simp_all split: option.splits node.splits)

lemma walk_all_dirs:
  "\<forall>k. 0 < k \<and> k \<le> length cs \<longrightarrow> node_at f (resolve cur (take k cs)) = Some Dir
     \<Longrightarrow> walk f cur cs = Inr (resolve cur cs)"
proof (induction cs arbitrary: cur)
  case Nil
  then show ?case by simp
next
  case (Cons c cs)
  define nxt where "nxt = (if c = ''..'' then butlast cur else cur @ [c])"
  have rest: "\<forall>k. 0 < k \<and> k \<le> length cs \<longrightarrow> node_at f (resolve nxt (take k cs)) = Some Dir"
  proof (intro allI impI)
    fix k assume "0 < k \<and> k \<le> length cs"
    then show "node_at f (resolve nxt (take k cs)) = Some Dir"
      using Cons.prems [rule_format, of "Suc k"] by (simp add: nxt_def)
  qed
  from Cons.IH [OF rest] have ih: "walk f nxt cs = Inr (resolve nxt cs)" .
  show ?case
  proof (cases "c = ''..''")
    case True
    with ih show ?thesis by (simp add: nxt_def)
  next
    case False
    from Cons.prems [rule_format, of 1] False have "f (cur @ [c]) = Some Dir"
      by (simp add: node_at_def)
    with ih False show ?thesis by (simp add: nxt_def)
  qed
qed

lemma walk_error:
  "walk f cur cs = Inl e
     \<Longrightarrow> e = FileNotFoundError
         \<or> (\<exists>k m d. 0 < k \<and> k \<le> length cs \<and> node_at f (resolve cur (take k cs)) = Some (File m d))"
proof (induction cs arbitrary: cur)
  case Nil
  then show ?case by simp
next
  case (Cons c cs)
  define nxt where "nxt = (if c = ''..'' then butlast cur else cur @ [c])"
  have lift: "e = FileNotFoundError
         \<or> (\<exists>k m d. 0 < k \<and> k \<le> length (c # cs)
                \<and> node_at f (resolve cur (take k (c # cs))) = Some (File m d))"
    if w: "walk f nxt cs = Inl e"
  proof -
    from Cons.IH [OF w] show ?thesis
    proof
      assume "e = FileNotFoundError"
      then show ?thesis ..
    next
      assume "\<exists>k m d. 0 < k \<and> k \<le> length cs \<and> node_at f (resolve nxt (take k cs)) = Some (File m d)"
      then obtain k m d where k: "0 < k" "k \<le> length cs"
        "node_at f (resolve nxt (take k cs)) = Some (File m d)" by blast
      then have "0 < Suc k \<and> Suc k \<le> length (c # cs)
                   \<and> node_at f (resolve cur (take (Suc k) (c # cs))) = Some (File m d)"
        by (simp add: nxt_def)
      then show ?thesis by blast
    qed
  qed
  show ?case
  proof (cases "c = ''..''")
    case True
    with Cons.prems have "walk f nxt cs = Inl e" by (simp add: nxt_def)
    then show ?thesis by (rule lift)
  next
    case False
    show ?thesis
    proof (cases "f (cur @ [c])")
      case None
      with Cons.prems False show ?thesis by simp
    next
      case (Some n)
      show ?thesis
      proof (cases n)
        case Dir
        with Some Cons.prems False have "walk f nxt cs = Inl e" by (simp add: nxt_def)
        then show ?thesis by (rule lift)
      next
        case (File m d)
        with Some False have "0 < (1::nat) \<and> 1 \<le> length (c # cs)
                   \<and> node_at f (resolve cur (take 1 (c # cs))) = Some (File m d)"
          by (simp add: node_at_def)
        then show ?thesis by blast
      qed
    qed
  qed
qed

lemma with_locs_Nil: "with_locs f [] = f"
  by (simp add: with_locs_def)

lemma with_locs_snoc:
  "with_locs f (D @ [t]) = (if t = [] then with_locs f D else (with_locs f D)(t \<mapsto> Dir))"
  by (auto simp: with_locs_def fun_eq_iff)

lemma with_locs_dir: "node_at f q = Some Dir \<Longrightarrow> node_at (with_locs f D) q = Some Dir"
  by (cases "q = []") (simp_all add: with_locs_def node_at_def)

lemma with_locs_in: "q \<in> set D \<Longrightarrow> node_at (with_locs f D) q = Some Dir"
  by (simp add: with_locs_def node_at_def)

lemma with_locs_out: "q \<notin> set D \<Longrightarrow> with_locs f D q = f q"
  by (simp add: with_locs_def)

lemma with_locs_id:
  assumes "\<forall>q \<in> set D. node_at f q = Some Dir"
  shows "with_locs f D = f"
proof
  fix q
  show "with_locs f D q = f q"
  proof (cases "q \<in> set D \<and> q \<noteq> []")
    case True
    with assms have "node_at f q = Some Dir" by blast
    with True show ?thesis by (simp add: with_locs_def node_at_def)
  next
    case False
    then show ?thesis by (auto simp: with_locs_def)
  qed
qed

lemma with_locs_file: "node_at (with_locs f D) q = Some (File m d) \<Longrightarrow> node_at f q = Some (File m d)"
  by (auto simp: with_locs_def node_at_def split: if_splits)

lemma dirs_to_with_locs: "dirs_to f loc \<Longrightarrow> dirs_to (with_locs f D) loc"
  unfolding dirs_to_iff by (simp add: with_locs_dir)

lemma locs_Nil: "locs s [] = []"
  by (simp add: locs_def)

lemma set_locs: "set (locs s ps) = {q. \<exists>k. 0 < k \<and> k \<le> length ps \<and> q = resolve s (take k ps)}"
proof -
  have "{Suc 0..<Suc (length ps)} = {k. 0 < k \<and> k \<le> length ps}" by auto
  then show ?thesis by (auto simp: locs_def simp del: upt_Suc)
qed

lemma locs_snoc: "locs s (qs @ [x]) = locs s qs @ [resolve s (qs @ [x])]"
proof -
  have "map (\<lambda>k. resolve s (take k (qs @ [x]))) [1..<Suc (length qs)]
          = map (\<lambda>k. resolve s (take k qs)) [1..<Suc (length qs)]"
    by (rule map_cong) (simp_all del: upt_Suc)
  then show ?thesis by (simp add: locs_def)
qed

lemma locs_mem: "0 < k \<Longrightarrow> k \<le> length ps \<Longrightarrow> resolve s (take k ps) \<in> set (locs s ps)"
  unfolding set_locs by blast

lemma locs_elem: "q \<in> set (locs s ps) \<Longrightarrow> \<exists>k. 0 < k \<and> k \<le> length ps \<and> q = resolve s (take k ps)"
  unfolding set_locs by blast


lemma mkdir_last:
  assumes w: "walk (files h) (start_dir h (PPath r (qs @ [x]))) qs = Inr d"
    and dd: "dirs_to (files h) d"
    and t: "t = (if x = ''..'' then butlast d else d @ [x])"
    and nf: "\<forall>m c. node_at (files h) t \<noteq> Some (File m c)"
  shows "(t \<noteq> [] \<and> os_mkdir h (PPath r (qs @ [x])) = Inr (h\<lparr>files := (files h)(t \<mapsto> Dir)\<rparr>))
       \<or> (os_mkdir h (PPath r (qs @ [x])) = Inl FileExistsError
           \<and> path_is_dir h (PPath r (qs @ [x])) \<and> node_at (files h) t = Some Dir)"
proof (cases "x = ''..''")
  case True
  have m: "os_mkdir h (PPath r (qs @ [x])) = Inl FileExistsError"
    using w True by (simp add: os_mkdir_def)
  have n: "node_at (files h) (butlast d) = Some Dir"
    using dd by (intro dirs_to_self dirs_to_butlast)
  have "os_stat h (PPath r (qs @ [x])) = Inr Dir"
    using w True n by (simp add: os_stat_def locate_def)
  with m n t True show ?thesis by (simp add: path_is_dir_def)
next
  case False
  then have tx: "t = d @ [x]" using t by simp
  then have na: "node_at (files h) t = files h t" by (simp add: node_at_def)
  show ?thesis
  proof (cases "files h t")
    case None
    then have "os_mkdir h (PPath r (qs @ [x])) = Inr (h\<lparr>files := (files h)(t \<mapsto> Dir)\<rparr>)"
      using w False tx by (simp add: os_mkdir_def)
    with tx show ?thesis by simp
  next
    case (Some n)
    with nf na have n: "n = Dir" by (cases n) auto
    have m: "os_mkdir h (PPath r (qs @ [x])) = Inl FileExistsError"
      using w False tx Some by (simp add: os_mkdir_def)
    have "os_stat h (PPath r (qs @ [x])) = Inr Dir"
      using w False tx Some n by (simp add: os_stat_def locate_def node_at_def)
    with m na Some n show ?thesis by (simp add: path_is_dir_def)
  qed
qed

lemma walk_prefix_dirs:
  assumes "walk f s qs = Inr d" "dirs_to f s"
  shows "\<forall>q \<in> set (locs s qs). node_at f q = Some Dir"
proof
  fix q assume "q \<in> set (locs s qs)"
  then obtain k where k: "0 < k" "k \<le> length qs" "q = resolve s (take k qs)"
    using locs_elem by blast
  have "walk f s (take k qs @ drop k qs) = Inr d" using assms(1) by simp
  then obtain d' where w: "walk f s (take k qs) = Inr d'"
    unfolding walk_append by (cases "walk f s (take k qs)") auto
  from walk_resolve [OF assms(2) w] k(3) show "node_at f q = Some Dir"
    by (auto intro: dirs_to_self)
qed

lemma path_mkdir_locs:
  assumes "dirs_to (files h) s"
    and "s = start_dir h (PPath r ps)"
    and "\<forall>q \<in> set (locs s ps). \<forall>m c. node_at (files h) q \<noteq> Some (File m c)"
  shows "path_mkdir h (PPath r ps) = (None, h\<lparr>files := with_locs (files h) (locs s ps)\<rparr>)"
  using assms
proof (induction ps rule: rev_induct)
  case Nil
  have "os_mkdir h (PPath r []) = Inl FileExistsError" by (simp add: os_mkdir_def)
  moreover have "path_is_dir h (PPath r [])"
    using dirs_to_self [OF Nil.prems(1)] Nil.prems(2)
    by (simp add: path_is_dir_def os_stat_def locate_def)
  ultimately have "path_mkdir h (PPath r []) = (None, h)"
    by (subst path_mkdir.simps) simp
  then show ?case by (simp add: locs_Nil with_locs_Nil)
next
  case (snoc x qs)
  define f where "f = files h"
  define d where "d = resolve s qs"
  define t where "t = resolve s (qs @ [x])"
  define f1 where "f1 = with_locs f (locs s qs)"
  define h1 where "h1 = h\<lparr>files := f1\<rparr>"
  have td: "t = (if x = ''..'' then butlast d else d @ [x])"
    by (simp add: t_def d_def resolve_snoc)
  have sp: "start_dir h (PPath r (qs @ [x])) = s" using snoc.prems(2) by simp
  have sq: "s = start_dir h (PPath r qs)" using snoc.prems(2) by (simp add: start_dir_def)
  have s1: "start_dir h1 (PPath r (qs @ [x])) = s"
    using sp by (simp add: h1_def start_dir_files)
  have fh1: "files h1 = f1" by (simp add: h1_def)
  have nfq: "\<forall>q \<in> set (locs s qs). \<forall>m c. node_at (files h) q \<noteq> Some (File m c)"
    using snoc.prems(3) by (simp add: locs_snoc)
  have nft: "\<forall>m c. node_at f t \<noteq> Some (File m c)"
    using snoc.prems(3) by (simp add: locs_snoc t_def f_def)
  have goal_eq: "with_locs (files h) (locs s (qs @ [x])) = (if t = [] then f1 else f1(t \<mapsto> Dir))"
    by (simp add: locs_snoc with_locs_snoc f1_def t_def f_def)
  have ih: "path_mkdir h (PPath r qs) = (None, h1)"
    unfolding h1_def f1_def f_def using snoc.prems(1) sq nfq by (rule snoc.IH)
  have "\<forall>k. 0 < k \<and> k \<le> length qs \<longrightarrow> node_at f1 (resolve s (take k qs)) = Some Dir"
    by (simp add: f1_def with_locs_in locs_mem)
  then have w1: "walk f1 s qs = Inr d" unfolding d_def by (rule walk_all_dirs)
  have ds1: "dirs_to f1 s" unfolding f1_def f_def using snoc.prems(1) by (rule dirs_to_with_locs)
  have dd1: "dirs_to f1 d" using walk_resolve [OF ds1 w1] by (rule conjunct2)
  have nft1: "\<forall>m c. node_at f1 t \<noteq> Some (File m c)"
    using nft with_locs_file unfolding f1_def by blast
  have res: "h\<lparr>files := with_locs (files h) (locs s (qs @ [x]))\<rparr> = h1"
    if "node_at f1 t = Some Dir"
  proof -
    have "(if t = [] then f1 else f1(t \<mapsto> Dir)) = f1"
    proof (cases "t = []")
      case True
      then show ?thesis by simp
    next
      case False
      with that have "f1 t = Some Dir" by (simp add: node_at_def)
      then have "f1(t \<mapsto> Dir) = f1" by (rule fun_upd_idem)
      with False show ?thesis by simp
    qed
    then show ?thesis unfolding goal_eq h1_def by simp
  qed
  have res2: "h\<lparr>files := with_locs (files h) (locs s (qs @ [x]))\<rparr> = h1\<lparr>files := f1(t \<mapsto> Dir)\<rparr>"
    if "t \<noteq> []"
    unfolding goal_eq h1_def using that by simp
  show ?case
  proof (cases "walk (files h) s qs")
    case (Inr d0)
    have "\<forall>q \<in> set (locs s qs). node_at (files h) q = Some Dir"
      using Inr snoc.prems(1) by (rule walk_prefix_dirs)
    then have "f1 = files h" unfolding f1_def f_def by (rule with_locs_id)
    then have hh: "h1 = h" by (simp add: h1_def)
    have w: "walk (files h1) (start_dir h1 (PPath r (qs @ [x]))) qs = Inr d"
      unfolding s1 fh1 using w1 .
    from mkdir_last [OF w _ td] dd1 nft1 fh1
    have "(t \<noteq> [] \<and> os_mkdir h1 (PPath r (qs @ [x])) = Inr (h1\<lparr>files := (files h1)(t \<mapsto> Dir)\<rparr>))
       \<or> (os_mkdir h1 (PPath r (qs @ [x])) = Inl FileExistsError
           \<and> path_is_dir h1 (PPath r (qs @ [x])) \<and> node_at (files h1) t = Some Dir)"
      by simp
    then show ?thesis
    proof
      assume a: "t \<noteq> [] \<and> os_mkdir h1 (PPath r (qs @ [x])) = Inr (h1\<lparr>files := (files h1)(t \<mapsto> Dir)\<rparr>)"
      then have "os_mkdir h (PPath r (qs @ [x])) = Inr (h1\<lparr>files := f1(t \<mapsto> Dir)\<rparr>)"
        using hh fh1 by simp
      then have "path_mkdir h (PPath r (qs @ [x])) = (None, h1\<lparr>files := f1(t \<mapsto> Dir)\<rparr>)"
        by (subst path_mkdir.simps) simp
      with res2 a show ?thesis by simp
    next
      assume a: "os_mkdir h1 (PPath r (qs @ [x])) = Inl FileExistsError
           \<and> path_is_dir h1 (PPath r (qs @ [x])) \<and> node_at (files h1) t = Some Dir"
      then have "os_mkdir h (PPath r (qs @ [x])) = Inl FileExistsError"
        and "path_is_dir h (PPath r (qs @ [x]))"
        using hh by simp_all
      then have "path_mkdir h (PPath r (qs @ [x])) = (None, h)"
        by (subst path_mkdir.simps) simp
      with res a fh1 hh show ?thesis by simp
    qed
  next
    case (Inl e)
    have e: "e = FileNotFoundError"
    proof (rule ccontr)
      assume "e \<noteq> FileNotFoundError"
      with walk_error [OF Inl] obtain k m c where
        k: "0 < k" "k \<le> length qs" "node_at (files h) (resolve s (take k qs)) = Some (File m c)"
        by blast
      from locs_mem [OF k(1,2)] nfq k(3) show False by blast
    qed
    have "walk (files h) (start_dir h (PPath r (qs @ [x]))) qs = Inl FileNotFoundError"
      unfolding sp using Inl e by simp
    then have m0: "os_mkdir h (PPath r (qs @ [x])) = Inl FileNotFoundError"
      by (rule os_mkdir_snoc_fail)
    have par: "path_parent (PPath r (qs @ [x])) = PPath r qs" by (simp add: path_parent_def)
    have w: "walk (files h1) (start_dir h1 (PPath r (qs @ [x]))) qs = Inr d"
      unfolding s1 fh1 using w1 .
    from mkdir_last [OF w _ td] dd1 nft1 fh1
    have "(t \<noteq> [] \<and> os_mkdir h1 (PPath r (qs @ [x])) = Inr (h1\<lparr>files := (files h1)(t \<mapsto> Dir)\<rparr>))
       \<or> (os_mkdir h1 (PPath r (qs @ [x])) = Inl FileExistsError
           \<and> path_is_dir h1 (PPath r (qs @ [x])) \<and> node_at (files h1) t = Some Dir)"
      by simp
    then show ?thesis
    proof
      assume a: "t \<noteq> [] \<and> os_mkdir h1 (PPath r (qs @ [x])) = Inr (h1\<lparr>files := (files h1)(t \<mapsto> Dir)\<rparr>)"
      then have m1: "os_mkdir h1 (PPath r (qs @ [x])) = Inr (h1\<lparr>files := f1(t \<mapsto> Dir)\<rparr>)"
        using fh1 by simp
      have "path_mkdir h (PPath r (qs @ [x])) = (None, h1\<lparr>files := f1(t \<mapsto> Dir)\<rparr>)"
        by (subst path_mkdir.simps) (simp add: m0 par ih m1)
      with res2 a show ?thesis by simp
    next
      assume a: "os_mkdir h1 (PPath r (qs @ [x])) = Inl FileExistsError
           \<and> path_is_dir h1 (PPath r (qs @ [x])) \<and> node_at (files h1) t = Some Dir"
      then have m1: "os_mkdir h1 (PPath r (qs @ [x])) = Inl FileExistsError"
        and dir1: "path_is_dir h1 (PPath r (qs @ [x]))" by simp_all
      have "path_mkdir h (PPath r (qs @ [x])) = (None, h1)"
        by (subst path_mkdir.simps) (simp add: m0 par ih m1 dir1)
      with res a fh1 show ?thesis by simp
    qed
  qed
qed


lemma stat_walked:
  assumes "walk (files h) s qs = Inr d" "dirs_to (files h) s" "s = start_dir h (PPath r qs)"
  shows "os_stat h (PPath r qs) = Inr Dir"
proof (cases qs rule: rev_cases)
  case Nil
  with assms dirs_to_self [OF assms(2)] show ?thesis
    by (simp add: os_stat_def locate_def)
next
  case (snoc qs' y)
  from assms(1) snoc
  have "(case walk (files h) s qs' of Inl e \<Rightarrow> Inl e | Inr d' \<Rightarrow> walk (files h) d' [y]) = Inr d"
    by (simp add: walk_append del: walk.simps)
  then obtain d' where w': "walk (files h) s qs' = Inr d'"
    and wy: "walk (files h) d' [y] = Inr d"
    by (cases "walk (files h) s qs'") (auto simp del: walk.simps)
  have nd: "node_at (files h) d = Some Dir"
    using walk_resolve [OF assms(2) assms(1)] by (auto intro: dirs_to_self)
  have st: "start_dir h (PPath r (qs' @ [y])) = s" using assms(3) snoc by simp
  have "locate h (PPath r (qs' @ [y])) = Inr d"
  proof (cases "y = ''..''")
    case True
    with wy have "d = butlast d'" by simp
    with True w' st show ?thesis by (simp add: locate_def)
  next
    case False
    with wy have "d = d' @ [y]" by (auto split: option.splits node.splits)
    with False w' st show ?thesis by (simp add: locate_def)
  qed
  with nd snoc show ?thesis by (simp add: os_stat_def)
qed

lemma mkdir_then_write_locs:
  assumes st: "dirs_to (files h) s" "s = start_dir h (PPath r (qs @ [x]))"
    and nofile: "\<forall>q \<in> set (locs s qs). \<forall>m c. node_at (files h) q \<noteq> Some (File m c)"
    and tgt: "node_at (files h) (resolve s (qs @ [x])) \<noteq> Some Dir"
      "resolve s (qs @ [x]) \<notin> set (locs s qs)"
  shows "\<exists>h1 h2 m. path_mkdir h (path_parent (PPath r (qs @ [x]))) = (None, h1)
            \<and> write_bytes h1 (PPath r (qs @ [x])) data = Inr h2
            \<and> os_stat h2 (PPath r (qs @ [x])) = Inr (File m data)
            \<and> path_is_dir h2 (path_parent (PPath r (qs @ [x])))
            \<and> (\<forall>q \<in> set (s # locs s qs). node_at (files h2) q = Some Dir)"
proof -
  define f1 where "f1 = with_locs (files h) (locs s qs)"
  define h1 where "h1 = h\<lparr>files := f1\<rparr>"
  define d where "d = resolve s qs"
  define t where "t = resolve s (qs @ [x])"
  have td: "t = (if x = ''..'' then butlast d else d @ [x])"
    by (simp add: t_def d_def resolve_snoc)
  have fh1: "files h1 = f1" by (simp add: h1_def)
  have par: "path_parent (PPath r (qs @ [x])) = PPath r qs" by (simp add: path_parent_def)
  have sq: "s = start_dir h (PPath r qs)" using st(2) by (simp add: start_dir_def)
  have sq1: "s = start_dir h1 (PPath r qs)" using sq by (simp add: h1_def start_dir_files)
  have s1: "start_dir h1 (PPath r (qs @ [x])) = s"
    using st(2) by (simp add: h1_def start_dir_files)
  have mk: "path_mkdir h (path_parent (PPath r (qs @ [x]))) = (None, h1)"
    unfolding par h1_def f1_def using st(1) sq nofile by (rule path_mkdir_locs)
  have "\<forall>k. 0 < k \<and> k \<le> length qs \<longrightarrow> node_at f1 (resolve s (take k qs)) = Some Dir"
    by (simp add: f1_def with_locs_in locs_mem)
  then have w1: "walk f1 s qs = Inr d" unfolding d_def by (rule walk_all_dirs)
  have ds1: "dirs_to f1 s" unfolding f1_def using st(1) by (rule dirs_to_with_locs)
  have dir1: "os_stat h1 (PPath r qs) = Inr Dir"
    using w1 ds1 sq1 unfolding fh1 [symmetric] by (rule stat_walked)
  have tne: "t \<noteq> []" using tgt(1) by (auto simp: t_def node_at_def)
  have ft: "f1 t = files h t" unfolding f1_def t_def using tgt(2) by (rule with_locs_out)
  have nd: "files h1 t \<noteq> Some Dir" using tgt(1) ft tne by (simp add: fh1 t_def node_at_def)
  have na: "node_at (files h1) t = files h1 t" using tne by (simp add: node_at_def)
  have loc: "locate h1 (PPath r (qs @ [x])) = Inr t"
    using w1 td by (simp add: locate_def s1 fh1)
  obtain h2 where wr: "write_bytes h1 (PPath r (qs @ [x])) data = Inr h2"
    and h2: "\<exists>m. h2 = h1\<lparr>files := (files h1)(t \<mapsto> File m data)\<rparr>"
  proof (cases "files h1 t")
    case None
    then have "write_bytes h1 (PPath r (qs @ [x])) data
                 = Inr (h1\<lparr>files := (files h1)(t \<mapsto> File (new_file_mode h1) data)\<rparr>)"
      by (simp add: write_bytes_def loc na)
    then show ?thesis using that by blast
  next
    case (Some n)
    with nd obtain m c where n: "n = File m c" by (cases n) auto
    with Some have "write_bytes h1 (PPath r (qs @ [x])) data
                      = Inr (h1\<lparr>files := (files h1)(t \<mapsto> File m data)\<rparr>)"
      by (simp add: write_bytes_def loc na)
    then show ?thesis using that by blast
  qed
  from write_bytes_stat [OF wr] obtain m where stat: "os_stat h2 (PPath r (qs @ [x])) = Inr (File m data)" ..
  from h2 obtain m' where h2eq: "h2 = h1\<lparr>files := (files h1)(t \<mapsto> File m' data)\<rparr>" ..
  then have "os_stat h2 (PPath r qs) = Inr Dir"
    using os_stat_upd_dir [OF dir1 nd] by simp
  then have pd: "path_is_dir h2 (path_parent (PPath r (qs @ [x])))"
    by (simp add: path_is_dir_def par)
  have alld: "\<forall>q \<in> set (s # locs s qs). node_at (files h2) q = Some Dir"
  proof
    fix q assume q: "q \<in> set (s # locs s qs)"
    have q1: "node_at f1 q = Some Dir"
    proof (cases "q = s")
      case True
      with ds1 show ?thesis by (simp add: dirs_to_self)
    next
      case False
      with q have "q \<in> set (locs s qs)" by simp
      then show ?thesis unfolding f1_def by (rule with_locs_in)
    qed
    have "q \<noteq> t"
    proof
      assume "q = t"
      with q1 ft tne have "files h t = Some Dir" by (simp add: node_at_def)
      with tgt(1) tne show False by (simp add: t_def node_at_def)
    qed
    with q1 show "node_at (files h2) q = Some Dir"
      by (cases "q = []") (simp_all add: h2eq fh1 node_at_def)
  qed
  from mk wr stat pd alld show ?thesis by blast
qed

lemma no_file_on_way_iff:
  "no_file_on_way h p \<longleftrightarrow> (\<forall>q \<in> set (way h p). \<forall>m c. node_at (files h) q \<noteq> Some (File m c))"
proof -
  have "\<And>z. (case z of None \<Rightarrow> True | Some Dir \<Rightarrow> True | Some (File m c) \<Rightarrow> False)
             \<longleftrightarrow> (\<forall>m c. z \<noteq> Some (File m c))"
    by (auto split: option.splits node.splits)
  then show ?thesis unfolding no_file_on_way_def list_all_iff by simp
qed

lemma tmux_write_succeeds:
  assumes "fp = get_full_path b sandbox_id path"
    and "start_exists (hst b) fp"
    and "no_file_on_way (hst b) fp"
    and "node_at (files (hst b)) (target (hst b) fp) \<noteq> Some Dir"
    and "target (hst b) fp \<notin> set (way (hst b) fp)"
  shows "\<exists>h1 h2 m. path_mkdir (hst b) (path_parent fp) = (None, h1)
            \<and> write_bytes h1 fp data = Inr h2
            \<and> os_stat h2 fp = Inr (File m data)
            \<and> path_is_dir h2 (path_parent fp)
            \<and> (\<forall>q \<in> set (way (hst b) fp). node_at (files h2) q = Some Dir)"
proof -
  obtain r ps where fp: "fp = PPath r ps" by (cases fp)
  define s where "s = start_dir (hst b) fp"
  have ds: "dirs_to (files (hst b)) s" using assms(2) by (simp add: start_exists_def s_def)
  have "ps \<noteq> []"
  proof
    assume "ps = []"
    with assms(4) fp have "node_at (files (hst b)) s \<noteq> Some Dir" by (simp add: target_def s_def)
    with dirs_to_self [OF ds] show False by simp
  qed
  then obtain qs x where ps: "ps = qs @ [x]" by (cases ps rule: rev_cases) auto
  have wy: "way (hst b) fp = s # locs s qs" by (simp add: way_def s_def fp ps)
  have tg: "target (hst b) fp = resolve s (qs @ [x])" by (simp add: target_def s_def fp ps)
  have st: "s = start_dir (hst b) (PPath r (qs @ [x]))" by (simp add: s_def fp ps)
  have nofile: "\<forall>q \<in> set (locs s qs). \<forall>m c. node_at (files (hst b)) q \<noteq> Some (File m c)"
    using assms(3) unfolding no_file_on_way_iff wy by simp
  have t1: "node_at (files (hst b)) (resolve s (qs @ [x])) \<noteq> Some Dir"
    using assms(4) unfolding tg .
  have t2: "resolve s (qs @ [x]) \<notin> set (locs s qs)"
    using assms(5) unfolding tg wy by simp
  from mkdir_then_write_locs [OF ds st nofile t1 t2, of data] show ?thesis
    unfolding fp ps wy [unfolded fp ps] .
qed

lemma example_write_ready:
  "start_exists (hst tmux_example) (get_full_path tmux_example ''sbx_1'' ''x/../out/t.bin'')"
  "no_file_on_way (hst tmux_example) (get_full_path tmux_example ''sbx_1'' ''x/../out/t.bin'')"
  "node_at (files (hst tmux_example))
     (target (hst tmux_example) (get_full_path tmux_example ''sbx_1'' ''x/../out/t.bin'')) \<noteq> Some Dir"
  "target (hst tmux_example) (get_full_path tmux_example ''sbx_1'' ''x/../out/t.bin'')
     \<notin> set (way (hst tmux_example) (get_full_path tmux_example ''sbx_1'' ''x/../out/t.bin''))"
  "\<not> path_exists (hst tmux_example)
       (path_parent (get_full_path tmux_example ''sbx_1'' ''x/../out/t.bin''))"
  "way (hst tmux_example) (get_full_path tmux_example ''sbx_1'' ''x/../out/t.bin'')
     = [[], [''tmp''], [''tmp'', ''ws''], [''tmp'', ''ws'', ''sbx_1''], [''tmp'', ''ws'', ''sbx_1'', ''x''],
        [''tmp'', ''ws'', ''sbx_1''], [''tmp'', ''ws'', ''sbx_1'', ''out'']]"
  "target (hst tmux_example) (get_full_path tmux_example ''sbx_1'' ''x/../out/t.bin'')
     = [''tmp'', ''ws'', ''sbx_1'', ''out'', ''t.bin'']"
  by code_simp+

text \<open>
  C9, as the code has it. Let the directory the translated path starts from exist, let
  none of the locations leading to the path be a regular file, and let the location the
  path names be neither an existing directory nor one of the locations leading to it.
  Then \<open>write_file\<close> and \<open>write_file_bytes\<close> return a \<open>FileInfo\<close>, and afterwards the
  parent of the path and every location leading to the path is a directory, whether or
  not they existed before. The size in the \<open>FileInfo\<close> is the number of bytes written:
  the length of the data, and for a text its length in UTF-8, which is the number of its
  characters when all of them are ASCII.
\<close>

theorem tmux_write_creates_parents:
  assumes "fp = get_full_path b sandbox_id path"
    and "start_exists (hst b) fp"
    and "no_file_on_way (hst b) fp"
    and "node_at (files (hst b)) (target (hst b) fp) \<noteq> Some Dir"
    and "target (hst b) fp \<notin> set (way (hst b) fp)"
  shows "(\<exists>fi. fst (tmux_write_file b sandbox_id path content) = Inr fi
              \<and> fi_size fi = int (length (utf8_encode content)))
       \<and> path_is_dir (hst (snd (tmux_write_file b sandbox_id path content))) (path_parent fp)
       \<and> (\<forall>q \<in> set (way (hst b) fp).
             node_at (files (hst (snd (tmux_write_file b sandbox_id path content)))) q = Some Dir)
       \<and> (\<exists>fi. fst (tmux_write_file_bytes b sandbox_id path data) = Inr fi
              \<and> fi_size fi = int (length data))
       \<and> path_is_dir (hst (snd (tmux_write_file_bytes b sandbox_id path data))) (path_parent fp)
       \<and> (\<forall>q \<in> set (way (hst b) fp).
             node_at (files (hst (snd (tmux_write_file_bytes b sandbox_id path data)))) q = Some Dir)
       \<and> ((\<forall>c \<in> set content. (of_char c :: nat) < 128)
            \<longrightarrow> length (utf8_encode content) = length content)"
proof -
  from tmux_write_succeeds [OF assms, of "utf8_encode content"] obtain h1 h2 m where
    t: "path_mkdir (hst b) (path_parent fp) = (None, h1)"
       "write_bytes h1 fp (utf8_encode content) = Inr h2"
       "os_stat h2 fp = Inr (File m (utf8_encode content))"
       "path_is_dir h2 (path_parent fp)"
       "\<forall>q \<in> set (way (hst b) fp). node_at (files h2) q = Some Dir"
    by blast
  from tmux_write_succeeds [OF assms, of data] obtain k1 k2 n where
    d: "path_mkdir (hst b) (path_parent fp) = (None, k1)"
       "write_bytes k1 fp data = Inr k2"
       "os_stat k2 fp = Inr (File n data)"
       "path_is_dir k2 (path_parent fp)"
       "\<forall>q \<in> set (way (hst b) fp). node_at (files k2) q = Some Dir"
    by blast
  have wt: "tmux_write_file b sandbox_id path content
              = (Inr (file_info_of fp (File m (utf8_encode content))), b\<lparr>hst := h2\<rparr>)"
    using t(1-3) by (simp add: tmux_write_file_def assms(1) [symmetric] write_text_def)
  have wb: "tmux_write_file_bytes b sandbox_id path data
              = (Inr (file_info_of fp (File n data)), b\<lparr>hst := k2\<rparr>)"
    using d(1-3) by (simp add: tmux_write_file_bytes_def assms(1) [symmetric])
  have s1: "fi_size (file_info_of fp (File m (utf8_encode content)))
              = int (length (utf8_encode content))"
    and s2: "fi_size (file_info_of fp (File n data)) = int (length data)"
    by (simp_all add: file_info_of_def st_size_def)
  show ?thesis
  proof (intro conjI impI)
    show "\<exists>fi. fst (tmux_write_file b sandbox_id path content) = Inr fi
              \<and> fi_size fi = int (length (utf8_encode content))"
      using s1 by (simp add: wt)
    show "path_is_dir (hst (snd (tmux_write_file b sandbox_id path content))) (path_parent fp)"
      using t(4) by (simp add: wt)
    show "\<forall>q \<in> set (way (hst b) fp).
             node_at (files (hst (snd (tmux_write_file b sandbox_id path content)))) q = Some Dir"
      using t(5) by (simp add: wt)
    show "\<exists>fi. fst (tmux_write_file_bytes b sandbox_id path data) = Inr fi
              \<and> fi_size fi = int (length data)"
      using s2 by (simp add: wb)
    show "path_is_dir (hst (snd (tmux_write_file_bytes b sandbox_id path data))) (path_parent fp)"
      using d(4) by (simp add: wb)
    show "\<forall>q \<in> set (way (hst b) fp).
             node_at (files (hst (snd (tmux_write_file_bytes b sandbox_id path data)))) q = Some Dir"
      using d(5) by (simp add: wb)
  next
    assume "\<forall>c \<in> set content. (of_char c :: nat) < 128"
    then show "length (utf8_encode content) = length content" by (rule utf8_encode_ascii)
  qed
qed

theorem tmux_write_creates_parents_witness:
  "\<not> path_exists (hst tmux_example)
       (path_parent (get_full_path tmux_example ''sbx_1'' ''x/../out/t.bin''))
   \<and> (\<exists>fi. fst (tmux_write_file tmux_example ''sbx_1'' ''x/../out/t.bin'' ''hi'') = Inr fi
          \<and> fi_size fi = int (length (utf8_encode ''hi'')))
   \<and> path_is_dir (hst (snd (tmux_write_file tmux_example ''sbx_1'' ''x/../out/t.bin'' ''hi'')))
        (path_parent (get_full_path tmux_example ''sbx_1'' ''x/../out/t.bin''))
   \<and> node_at (files (hst (snd (tmux_write_file tmux_example ''sbx_1'' ''x/../out/t.bin'' ''hi''))))
        [''tmp'', ''ws'', ''sbx_1'', ''out''] = Some Dir
   \<and> (\<exists>fi. fst (tmux_write_file_bytes tmux_example ''sbx_1'' ''x/../out/t.bin'' ''xyz'') = Inr fi
          \<and> fi_size fi = int (length ''xyz''))
   \<and> length (utf8_encode ''hi'') = length ''hi''"
proof -
  note t = tmux_write_creates_parents [OF refl example_write_ready(1-4), of "''hi''" "''xyz''"]
  have a: "\<forall>c \<in> set ''hi''. (of_char c :: nat) < 128" by simp
  have l: "length (utf8_encode ''hi'') = length ''hi''"
    using t [THEN conjunct2, THEN conjunct2, THEN conjunct2, THEN conjunct2, THEN conjunct2,
             THEN conjunct2] a by (rule mp)
  have m: "[''tmp'', ''ws'', ''sbx_1'', ''out'']
             \<in> set (way (hst tmux_example) (get_full_path tmux_example ''sbx_1'' ''x/../out/t.bin''))"
    unfolding example_write_ready(6) by simp
  have o: "node_at (files (hst (snd (tmux_write_file tmux_example ''sbx_1'' ''x/../out/t.bin'' ''hi''))))
        [''tmp'', ''ws'', ''sbx_1'', ''out''] = Some Dir"
    using t [THEN conjunct2, THEN conjunct2, THEN conjunct1] m by (rule bspec)
  show ?thesis
    by (intro conjI example_write_ready(5) t [THEN conjunct1]
        t [THEN conjunct2, THEN conjunct1] o
        t [THEN conjunct2, THEN conjunct2, THEN conjunct2, THEN conjunct1] l)
qed

text \<open>
  C9, as stated, fails. In each of the four cases the parent of the path does not exist
  before the write. In a workspace where \<open>a\<close> is a regular file, both writes to
  \<open>a/b/c.txt\<close> fail with \<open>NotADirectoryError\<close>: a regular file is on the way. The
  write to \<open>a/b/..\<close> fails with \<open>IsADirectoryError\<close>: the path names the directory
  \<open>a\<close>, which leads to it and is made before the file is opened. The write to
  \<open>new/../../../cap\<close> fails with \<open>IsADirectoryError\<close>: the path names the existing
  directory \<open>/tmp/cap\<close>. And the one-character text \<open>U+00E9\<close> is written to
  \<open>d/e.txt\<close> as two bytes: the \<open>FileInfo\<close> has size 2.
\<close>

theorem tmux_write_file_blocked:
  "\<not> path_exists (hst tmux_blocked)
       (path_parent (get_full_path tmux_blocked ''sbx_1'' ''a/b/c.txt''))
   \<and> \<not> no_file_on_way (hst tmux_blocked) (get_full_path tmux_blocked ''sbx_1'' ''a/b/c.txt'')
   \<and> fst (tmux_write_file tmux_blocked ''sbx_1'' ''a/b/c.txt'' ''hi'') = Inl NotADirectoryError
   \<and> fst (tmux_write_file_bytes tmux_blocked ''sbx_1'' ''a/b/c.txt'' ''hi'') = Inl NotADirectoryError
   \<and> \<not> path_exists (hst tmux_example)
       (path_parent (get_full_path tmux_example ''sbx_1'' ''a/b/..''))
   \<and> target (hst tmux_example) (get_full_path tmux_example ''sbx_1'' ''a/b/..'')
       \<in> set (way (hst tmux_example) (get_full_path tmux_example ''sbx_1'' ''a/b/..''))
   \<and> fst (tmux_write_file tmux_example ''sbx_1'' ''a/b/..'' ''hi'') = Inl IsADirectoryError
   \<and> \<not> path_exists (hst tmux_example)
       (path_parent (get_full_path tmux_example ''sbx_1'' ''new/../../../cap''))
   \<and> node_at (files (hst tmux_example))
        (target (hst tmux_example) (get_full_path tmux_example ''sbx_1'' ''new/../../../cap''))
       = Some Dir
   \<and> fst (tmux_write_file tmux_example ''sbx_1'' ''new/../../../cap'' ''hi'') = Inl IsADirectoryError
   \<and> \<not> path_exists (hst tmux_example)
       (path_parent (get_full_path tmux_example ''sbx_1'' ''d/e.txt''))
   \<and> fst (tmux_write_file tmux_example ''sbx_1'' ''d/e.txt'' [CHR 0xE9])
       = Inr \<lparr>fi_name = ''e.txt'', fi_path = ''/tmp/ws/sbx_1/d/e.txt'', fi_type = ''file'',
              fi_size = 2, fi_permissions = ''644'', fi_modified_at = None\<rparr>
   \<and> length [CHR 0xE9] = 1"
  by code_simp

end
